theory Spec2Isabelle
  imports Main "HOL-Library.Sublist" "HOL-Library.AList"
begin

section \<open>Values, dictionaries and the libraries the program calls\<close>

text \<open>
  The program is Python. Its dictionaries (token payloads, metadata records, the
  metadata store) are association lists in insertion order; \<open>d.get(k)\<close> is
  \<open>map_of d k\<close>. The values that occur are \<open>None\<close>, strings, integers, booleans
  and \<open>datetime\<close> objects; a \<open>datetime\<close>, and every reading of the clock, is the
  number of microseconds since the epoch, the resolution of \<open>datetime.utcnow()\<close>. A
  character is a code point below 256.
\<close>

datatype pyval = PNone | PStr string | PInt int | PBool bool | PTime int

type_synonym dict = "(string \<times> pyval) list"

text \<open>
  What the program takes from \<open>hashlib\<close>, \<open>hmac\<close> and \<open>datetime\<close> is a parameter of
  the model: the hexadecimal SHA-256 digest of a string, the HMAC signature of a token's
  header and payload under an algorithm and a key, the text of a token's compact
  serialisation, and the ISO-8601 text of an instant. No property below assumes anything
  about them.
\<close>

record lib =
  sha256_hexdigest :: "string \<Rightarrow> string"
  hmac_sign :: "string \<Rightarrow> string \<Rightarrow> dict \<times> dict \<Rightarrow> string"
  compact_serialization :: "dict \<times> dict \<times> string \<Rightarrow> string"
  isoformat :: "int \<Rightarrow> string"

text \<open>\<open>env.py\<close>: the master secret and the algorithm name, read once at start-up.\<close>

record env =
  SECRET_KEY :: string
  ALGORITHM :: string

section \<open>The signed-token library (PyJWT) as the program uses it\<close>

text \<open>
  A token string either is the compact serialisation of a header, a payload and a
  signature, or it is not (\<open>Garbled\<close>), and then decoding raises \<open>DecodeError\<close>.
\<close>

record jws =
  header :: dict
  payload :: dict
  signature :: string

datatype token = Garbled string | Compact jws

text \<open>The string a token is in a URL or a response.\<close>

definition token_text :: "lib \<Rightarrow> token \<Rightarrow> string" where
  "token_text L tok =
     (case tok of
        Garbled s \<Rightarrow> s
      | Compact j \<Rightarrow> compact_serialization L (header j, payload j, signature j))"

datatype jwt_error =
    DecodeError
  | InvalidAlgorithmError
  | InvalidKeyError
  | InvalidSignatureError
  | InvalidIssuedAtError
  | ImmatureSignatureError
  | ExpiredSignatureError
  | NotImplementedError
  | TypeError

definition hmac_algorithms :: "string list" where
  "hmac_algorithms = [''HS256'', ''HS384'', ''HS512'']"

text \<open>
  \<open>jwt.encode\<close> turns a \<open>datetime\<close> under \<open>exp\<close>, \<open>iat\<close> or \<open>nbf\<close> into its
  timestamp in whole seconds (\<open>timegm\<close> of the time tuple, which drops the
  microseconds); any \<open>datetime\<close> left makes the JSON encoder raise \<open>TypeError\<close>.
\<close>

definition is_datetime :: "pyval \<Rightarrow> bool" where
  "is_datetime v = (case v of PTime _ \<Rightarrow> True | _ \<Rightarrow> False)"

definition numeric_date :: "string \<times> pyval \<Rightarrow> string \<times> pyval" where
  "numeric_date kv =
     (case kv of
        (k, PTime t) \<Rightarrow> if k \<in> set [''exp'', ''iat'', ''nbf''] then (k, PInt (t div 1000000))
                        else (k, PTime t)
      | _ \<Rightarrow> kv)"

definition jwt_encode :: "lib \<Rightarrow> dict \<Rightarrow> string \<Rightarrow> string \<Rightarrow> jwt_error + token" where
  "jwt_encode L pl key algorithm =
     (let p = map numeric_date pl;
          h = [(''alg'', PStr algorithm), (''typ'', PStr ''JWT'')]
      in if list_ex (\<lambda>kv. is_datetime (snd kv)) p then Inl TypeError
         else if algorithm = ''none'' then Inl InvalidKeyError
         else if algorithm \<notin> set hmac_algorithms then Inl NotImplementedError
         else Inr (Compact \<lparr>header = h, payload = p,
                            signature = hmac_sign L algorithm key (h, p)\<rparr>))"

text \<open>
  Python's \<open>int(v)\<close> on a claim. A claim holding a string is answered as not an
  integer; no token this program issues holds one.
\<close>

definition py_int :: "pyval \<Rightarrow> int option" where
  "py_int v =
     (case v of
        PInt n \<Rightarrow> Some n
      | PBool b \<Rightarrow> Some (if b then 1 else 0)
      | _ \<Rightarrow> None)"

text \<open>
  The registered claims, in the library's order: \<open>iat\<close> must not lie in the future,
  neither must \<open>nbf\<close>, and \<open>exp\<close> must lie in the future. The claims are in seconds,
  the clock reading \<open>now\<close> in microseconds; the leeway is zero.
\<close>

definition validate_iat :: "int \<Rightarrow> dict \<Rightarrow> jwt_error option" where
  "validate_iat now pl =
     (case map_of pl ''iat'' of
        None \<Rightarrow> None
      | Some v \<Rightarrow>
          (case py_int v of
             None \<Rightarrow> Some InvalidIssuedAtError
           | Some iat \<Rightarrow>
               if iat * 1000000 > now then Some ImmatureSignatureError else None))"

definition validate_nbf :: "int \<Rightarrow> dict \<Rightarrow> jwt_error option" where
  "validate_nbf now pl =
     (case map_of pl ''nbf'' of
        None \<Rightarrow> None
      | Some v \<Rightarrow>
          (case py_int v of
             None \<Rightarrow> Some DecodeError
           | Some nbf \<Rightarrow>
               if nbf * 1000000 > now then Some ImmatureSignatureError else None))"

definition validate_exp :: "int \<Rightarrow> dict \<Rightarrow> jwt_error option" where
  "validate_exp now pl =
     (case map_of pl ''exp'' of
        None \<Rightarrow> None
      | Some v \<Rightarrow>
          (case py_int v of
             None \<Rightarrow> Some DecodeError
           | Some exp \<Rightarrow>
               if exp * 1000000 \<le> now then Some ExpiredSignatureError else None))"

definition validate_claims :: "int \<Rightarrow> dict \<Rightarrow> jwt_error + dict" where
  "validate_claims now pl =
     (case validate_iat now pl of
        Some e \<Rightarrow> Inl e
      | None \<Rightarrow>
          (case validate_nbf now pl of
             Some e \<Rightarrow> Inl e
           | None \<Rightarrow>
               (case validate_exp now pl of
                  Some e \<Rightarrow> Inl e
                | None \<Rightarrow> Inr pl)))"

definition jwt_decode :: "lib \<Rightarrow> int \<Rightarrow> token \<Rightarrow> string \<Rightarrow> string list \<Rightarrow> jwt_error + dict" where
  "jwt_decode L now tok key algorithms =
     (case tok of
        Garbled _ \<Rightarrow> Inl DecodeError
      | Compact j \<Rightarrow>
          (case map_of (header j) ''alg'' of
             Some (PStr alg) \<Rightarrow>
               if alg = [] \<or> alg \<notin> set algorithms then Inl InvalidAlgorithmError
               else if alg \<notin> set hmac_algorithms then Inl InvalidKeyError
               else if signature j \<noteq> hmac_sign L alg key (header j, payload j)
                    then Inl InvalidSignatureError
               else validate_claims now (payload j)
           | _ \<Rightarrow> Inl InvalidAlgorithmError))"

section \<open>\<open>utils.py\<close>: keys and tokens\<close>

definition generate_signing_key :: "lib \<Rightarrow> string \<Rightarrow> string \<Rightarrow> string" where
  "generate_signing_key L secret_key access_key =
     sha256_hexdigest L (secret_key @ '':'' @ access_key)"

definition hash_string :: "lib \<Rightarrow> string \<Rightarrow> string" where
  "hash_string L v = sha256_hexdigest L v"

text \<open>
  \<open>create_access_token\<close> reads the clock (\<open>now\<close>) and draws a random token identifier
  (\<open>token_id\<close>); both are arguments here. \<open>timedelta(minutes=m)\<close> is
  \<open>60000000 * m\<close> microseconds.
\<close>

definition create_access_token ::
  "lib \<Rightarrow> env \<Rightarrow> int \<Rightarrow> string \<Rightarrow> string \<Rightarrow> string \<Rightarrow> int \<Rightarrow> jwt_error + token" where
  "create_access_token L E now token_id media_id access_key expiry_minutes =
     (let pl = [(''media_id'', PStr media_id),
                (''access_key_hash'', PStr (hash_string L access_key)),
                (''iat'', PTime now),
                (''exp'', PTime (now + 60000000 * expiry_minutes)),
                (''jti'', PStr token_id),
                (''token_type'', PStr ''access'')];
          signing_key = generate_signing_key L (SECRET_KEY E) access_key
      in jwt_encode L pl signing_key (ALGORITHM E))"

text \<open>Every exception of the decoder is answered with \<open>False\<close>.\<close>

definition verify_access_token :: "lib \<Rightarrow> env \<Rightarrow> int \<Rightarrow> token \<Rightarrow> string \<Rightarrow> string \<Rightarrow> bool" where
  "verify_access_token L E now tok expected_video_id access_key =
     (let signing_key = generate_signing_key L (SECRET_KEY E) access_key
      in case jwt_decode L now tok signing_key [ALGORITHM E] of
           Inl _ \<Rightarrow> False
         | Inr pl \<Rightarrow>
             if map_of pl ''token_type'' \<noteq> Some (PStr ''access'') then False
             else if map_of pl ''media_id'' \<noteq> Some (PStr expected_video_id) then False
             else if map_of pl ''access_key_hash'' \<noteq> Some (PStr (hash_string L access_key))
                  then False
             else True)"

text \<open>\<open>create_admin_token\<close> signs with the master secret itself; \<open>timedelta(hours=h)\<close>
  is \<open>3600000000 * h\<close> microseconds.\<close>

definition create_admin_token ::
  "lib \<Rightarrow> env \<Rightarrow> int \<Rightarrow> string \<Rightarrow> string \<Rightarrow> int \<Rightarrow> jwt_error + token" where
  "create_admin_token L E now token_id admin_key expiry_hours =
     (let pl = [(''admin'', PBool True),
                (''admin_key_hash'', PStr (hash_string L admin_key)),
                (''iat'', PTime now),
                (''exp'', PTime (now + 3600000000 * expiry_hours)),
                (''jti'', PStr token_id),
                (''token_type'', PStr ''admin'')]
      in jwt_encode L pl (SECRET_KEY E) (ALGORITHM E))"

section \<open>Paths (\<open>os.path\<close> on POSIX)\<close>

text \<open>\<open>s.split(c)\<close>: the pieces between the separators, at least one.\<close>

fun split_on :: "char \<Rightarrow> string \<Rightarrow> string list" where
  "split_on c [] = [[]]"
| "split_on c (x # xs) =
     (if x = c then [] # split_on c xs
      else (case split_on c xs of
              [] \<Rightarrow> [[x]]
            | y # ys \<Rightarrow> (x # y) # ys))"

fun join_with :: "string \<Rightarrow> string list \<Rightarrow> string" where
  "join_with sep [] = []"
| "join_with sep [x] = x"
| "join_with sep (x # y # ys) = x @ sep @ join_with sep (y # ys)"

definition isabs :: "string \<Rightarrow> bool" where
  "isabs p = prefix ''/'' p"

definition path_join :: "string \<Rightarrow> string \<Rightarrow> string" where
  "path_join a b =
     (if prefix ''/'' b then b
      else if a = [] \<or> suffix ''/'' a then a @ b
      else a @ ''/'' @ b)"

text \<open>
  The loop of \<open>normpath\<close> over the components: \<open>rooted\<close> says that the path starts
  with a slash, \<open>new_comps\<close> is the list built so far.
\<close>

fun norm_comps :: "bool \<Rightarrow> string list \<Rightarrow> string list \<Rightarrow> string list" where
  "norm_comps rooted new_comps [] = new_comps"
| "norm_comps rooted new_comps (c # comps) =
     (if c = [] \<or> c = ''.'' then norm_comps rooted new_comps comps
      else if c \<noteq> ''..'' \<or> (\<not> rooted \<and> new_comps = [])
                \<or> (new_comps \<noteq> [] \<and> last new_comps = ''..'')
           then norm_comps rooted (new_comps @ [c]) comps
      else if new_comps \<noteq> [] then norm_comps rooted (butlast new_comps) comps
      else norm_comps rooted new_comps comps)"

definition normpath :: "string \<Rightarrow> string" where
  "normpath path =
     (if path = [] then ''.''
      else
        let initial_slashes =
              (if prefix ''/'' path
               then (if prefix ''//'' path \<and> \<not> prefix ''///'' path then 2 else 1)
               else (0::nat));
            comps = norm_comps (initial_slashes \<noteq> 0) [] (split_on CHR ''/'' path);
            p = replicate initial_slashes CHR ''/'' @ join_with ''/'' comps
        in if p = [] then ''.'' else p)"

definition abspath :: "string \<Rightarrow> string \<Rightarrow> string" where
  "abspath cwd path = normpath (if isabs path then path else path_join cwd path)"

section \<open>The files of the process\<close>

text \<open>
  The file of the metadata store holds a whole JSON document or something \<open>json.load\<close>
  cannot read (an empty or cut-off file). The records this program stores hold strings
  and integers, which JSON gives back as they were written.
\<close>

type_synonym store = "(string \<times> dict) list"

datatype doc = Document store | Unreadable

datatype node = Dir | File string

text \<open>
  \<open>files\<close> is keyed by absolute normalised path; \<open>db_file\<close> and \<open>backup_file\<close> are
  \<open>video_database.json\<close> and \<open>video_database.json.backup\<close> in the working directory.
\<close>

record world =
  cwd :: string
  files :: "string \<rightharpoonup> node"
  db_file :: "doc option"
  backup_file :: "doc option"

definition path_exists :: "world \<Rightarrow> string \<Rightarrow> bool" where
  "path_exists w p = (files w (abspath (cwd w) p) \<noteq> None)"

text \<open>\<open>os.makedirs(p, exist_ok=True)\<close>; the parent, \<open>HLS_ROOT\<close>, is made at start-up.\<close>

definition makedirs :: "world \<Rightarrow> string \<Rightarrow> world" where
  "makedirs w p =
     (if path_exists w p then w
      else w\<lparr>files := (files w)(abspath (cwd w) p \<mapsto> Dir)\<rparr>)"

definition write_file :: "world \<Rightarrow> string \<Rightarrow> string \<Rightarrow> world" where
  "write_file w p content = w\<lparr>files := (files w)(abspath (cwd w) p \<mapsto> File content)\<rparr>"

definition remove :: "world \<Rightarrow> string \<Rightarrow> world" where
  "remove w p = w\<lparr>files := (files w)(abspath (cwd w) p := None)\<rparr>"

text \<open>\<open>shutil.rmtree(d)\<close> removes the directory and every path below it.\<close>

definition below :: "string \<Rightarrow> string \<Rightarrow> bool" where
  "below d p = (p = d \<or> prefix (d @ ''/'') p)"

definition rmtree :: "world \<Rightarrow> string \<Rightarrow> world" where
  "rmtree w d =
     w\<lparr>files := (\<lambda>p. if below (abspath (cwd w) d) p then None else files w p)\<rparr>"

section \<open>\<open>database.py\<close>: the metadata store\<close>

definition load_database :: "world \<Rightarrow> store" where
  "load_database w =
     (case db_file w of
        Some (Document d) \<Rightarrow> d
      | _ \<Rightarrow> [])"

text \<open>
  \<open>_save_database\<close> renames the current file to the backup, opens and writes the new
  file, and removes the backup; an exception in between restores the backup and is raised
  again. A run ends in one of three ways: it finishes, an exception is raised at a point,
  or the process is stopped at a point and no handler runs.
\<close>

datatype point = Before_rename | After_rename | After_open | Mid_write | After_write

datatype outcome = Finished | Raised point | Killed point

datatype ending = Returned | Reraised | Stopped

definition backup_current :: "world \<Rightarrow> world" where
  "backup_current w =
     (if db_file w \<noteq> None then w\<lparr>backup_file := db_file w, db_file := None\<rparr> else w)"

definition restore_backup :: "world \<Rightarrow> world" where
  "restore_backup w =
     (if backup_file w \<noteq> None then w\<lparr>db_file := backup_file w, backup_file := None\<rparr> else w)"

definition remove_backup :: "world \<Rightarrow> world" where
  "remove_backup w = (if backup_file w \<noteq> None then w\<lparr>backup_file := None\<rparr> else w)"

text \<open>The files when the run has got to a point.\<close>

definition progress :: "point \<Rightarrow> store \<Rightarrow> world \<Rightarrow> world" where
  "progress p data w =
     (case p of
        Before_rename \<Rightarrow> w
      | After_rename \<Rightarrow> backup_current w
      | After_open \<Rightarrow> (backup_current w)\<lparr>db_file := Some Unreadable\<rparr>
      | Mid_write \<Rightarrow> (backup_current w)\<lparr>db_file := Some Unreadable\<rparr>
      | After_write \<Rightarrow> (backup_current w)\<lparr>db_file := Some (Document data)\<rparr>)"

definition save_database_run :: "world \<Rightarrow> store \<Rightarrow> outcome \<Rightarrow> world \<times> ending" where
  "save_database_run w data oc =
     (case oc of
        Finished \<Rightarrow> (remove_backup (progress After_write data w), Returned)
      | Raised p \<Rightarrow>
          (if p = Before_rename then w else restore_backup (progress p data w), Reraised)
      | Killed p \<Rightarrow> (progress p data w, Stopped))"

definition save_database :: "world \<Rightarrow> store \<Rightarrow> world" where
  "save_database w data = fst (save_database_run w data Finished)"

text \<open>The timestamps a request writes are one reading \<open>now\<close> of the clock.\<close>

definition store_video :: "lib \<Rightarrow> int \<Rightarrow> world \<Rightarrow> string \<Rightarrow> dict \<Rightarrow> world" where
  "store_video L now w public_id video_data =
     (let db_data = load_database w;
          v1 = AList.update ''created_at'' (PStr (isoformat L now)) video_data;
          v2 = AList.update ''updated_at'' (PStr (isoformat L now)) v1
      in save_database w (AList.update public_id v2 db_data))"

definition get_video :: "world \<Rightarrow> string \<Rightarrow> dict option" where
  "get_video w public_id = map_of (load_database w) public_id"

definition update_video :: "lib \<Rightarrow> int \<Rightarrow> world \<Rightarrow> string \<Rightarrow> dict \<Rightarrow> bool \<times> world" where
  "update_video L now w public_id video_data =
     (let db_data = load_database w
      in if map_of db_data public_id \<noteq> None
         then (True, save_database w
                 (AList.update public_id
                    (AList.update ''updated_at'' (PStr (isoformat L now)) video_data) db_data))
         else (False, w))"

section \<open>\<open>utils.py\<close>: the encoder\<close>

text \<open>
  A run of the external encoder: it exits with a return code, its error text and the
  files it has written into the output directory by then, or it cannot be started and
  \<open>subprocess.run\<close> raises with a message.
\<close>

datatype encoder = Exits int string "(string \<times> string) list" | Cannot_start string

fun write_outputs :: "world \<Rightarrow> string \<Rightarrow> (string \<times> string) list \<Rightarrow> world" where
  "write_outputs w d [] = w"
| "write_outputs w d ((name, content) # rest) =
     write_outputs (write_file w (path_join d name) content) d rest"

text \<open>The result is the message of the exception raised, or the playlist's path.\<close>

definition generate_hls :: "encoder \<Rightarrow> world \<Rightarrow> string \<Rightarrow> string \<Rightarrow> (string + string) \<times> world" where
  "generate_hls enc w video_path output_dir =
     (let w1 = makedirs w output_dir;
          playlist_path = path_join output_dir ''playlist.m3u8''
      in case enc of
           Cannot_start msg \<Rightarrow> (Inl msg, w1)
         | Exits returncode stderr outputs \<Rightarrow>
             (let w2 = write_outputs w1 output_dir outputs
              in if returncode \<noteq> 0 then (Inl (''FFmpeg error: '' @ stderr), w2)
                 else (Inr playlist_path, w2)))"

section \<open>\<open>main.py\<close>: the manifest rewriter\<close>

definition newline :: char where
  "newline = CHR 0x0A"

text \<open>Reading in text mode turns \<open>\r\n\<close> and \<open>\r\<close> into \<open>\n\<close>.\<close>

fun universal_newlines :: "string \<Rightarrow> string" where
  "universal_newlines [] = []"
| "universal_newlines [c] = (if c = CHR 0x0D then [newline] else [c])"
| "universal_newlines (c # d # ds) =
     (if c = CHR 0x0D then
        (if d = newline then newline # universal_newlines ds
         else newline # universal_newlines (d # ds))
      else c # universal_newlines (d # ds))"

text \<open>The lines of a text, each with its line ending.\<close>

fun keepends :: "string \<Rightarrow> string list" where
  "keepends [] = []"
| "keepends (c # cs) =
     (if c = newline then [c] # keepends cs
      else (case keepends cs of
              [] \<Rightarrow> [[c]]
            | l # ls \<Rightarrow> (c # l) # ls))"

definition readlines :: "string \<Rightarrow> string list" where
  "readlines content = keepends (universal_newlines content)"

text \<open>\<open>str.isspace\<close> on the code points below 256, and \<open>str.strip()\<close>.\<close>

definition isspace :: "char \<Rightarrow> bool" where
  "isspace c = ((of_char c :: nat) \<in> set [9, 10, 11, 12, 13, 28, 29, 30, 31, 32, 133, 160])"

definition strip :: "string \<Rightarrow> string" where
  "strip s = rev (dropWhile isspace (rev (dropWhile isspace s)))"

text \<open>The body of the loop: what is appended to \<open>new_lines\<close> for one line.\<close>

definition rewrite_line :: "string \<Rightarrow> string \<Rightarrow> string \<Rightarrow> string" where
  "rewrite_line media_id auth_token line0 =
     (let line = strip line0
      in if suffix ''.ts'' line
         then (let segment_name = last (split_on CHR ''/'' line)
               in ''/stream/'' @ media_id @ ''/'' @ segment_name @ ''?token='' @ auth_token
                  @ [newline])
         else line @ [newline])"

definition rewrite_lines :: "string \<Rightarrow> string \<Rightarrow> string list \<Rightarrow> string list" where
  "rewrite_lines media_id auth_token lines = map (rewrite_line media_id auth_token) lines"

datatype failure = HTTPException nat string | Unhandled string

definition rewrite_playlist_with_auth_urls ::
  "world \<Rightarrow> string \<Rightarrow> string \<Rightarrow> string \<Rightarrow> failure + string" where
  "rewrite_playlist_with_auth_urls w playlist_path media_id auth_token =
     (case files w (abspath (cwd w) playlist_path) of
        Some (File content) \<Rightarrow>
          Inr (concat (rewrite_lines media_id auth_token (readlines content)))
      | _ \<Rightarrow> Inl (Unhandled ''OSError''))"

section \<open>\<open>main.py\<close>: the request handlers\<close>

text \<open>
  A handler returns a response or raises; an \<open>HTTPException\<close> carries the status and the
  detail, any other exception is \<open>Unhandled\<close> with the name of its class. A handler
  that writes returns the files it leaves. The random identifiers a handler draws and the
  base URL of the request are arguments.
\<close>

datatype response =
    Json dict
  | Body string string
  | FileResponse string string

definition MEDIA_ROOT :: string where
  "MEDIA_ROOT = ''media''"

definition HLS_ROOT :: string where
  "HLS_ROOT = path_join MEDIA_ROOT ''hls''"

text \<open>The bounds \<open>ge=1, le=10080\<close> of a query parameter: the framework answers 422.\<close>

definition in_bounds :: "int \<Rightarrow> bool" where
  "in_bounds n = (1 \<le> n \<and> n \<le> 10080)"

definition validation_error :: failure where
  "validation_error = HTTPException 422 ''Unprocessable Entity''"

text \<open>\<open>media_data[k]\<close> where the program goes on to use the value as a string.\<close>

definition str_field :: "dict \<Rightarrow> string \<Rightarrow> failure + string" where
  "str_field d k =
     (case map_of d k of
        None \<Rightarrow> Inl (Unhandled ''KeyError'')
      | Some (PStr s) \<Rightarrow> Inr s
      | Some _ \<Rightarrow> Inl (Unhandled ''TypeError''))"

text \<open>\<open>d.get(k)\<close> as a value of a response.\<close>

definition get_or_none :: "dict \<Rightarrow> string \<Rightarrow> pyval" where
  "get_or_none d k = (case map_of d k of None \<Rightarrow> PNone | Some v \<Rightarrow> v)"

text \<open>
  \<open>verify_access_token\<close> on the stored access key: with a key that is not a string
  the hashing raises inside the \<open>try\<close>, and the answer is \<open>False\<close>.
\<close>

definition token_accepted :: "lib \<Rightarrow> env \<Rightarrow> int \<Rightarrow> token \<Rightarrow> string \<Rightarrow> pyval \<Rightarrow> bool" where
  "token_accepted L E now tok media_id key =
     (case key of
        PStr access_key \<Rightarrow> verify_access_token L E now tok media_id access_key
      | _ \<Rightarrow> False)"

definition upload_media ::
  "lib \<Rightarrow> env \<Rightarrow> int \<Rightarrow> string \<Rightarrow> encoder \<Rightarrow> world \<Rightarrow> string \<Rightarrow> int \<Rightarrow>
   string \<Rightarrow> string \<Rightarrow> string \<Rightarrow> string \<Rightarrow> string \<Rightarrow> (failure + response) \<times> world" where
  "upload_media L E now base_url enc w media expiry_minutes
     internal_media_id public_media_id access_key admin_key token_id =
     (if \<not> in_bounds expiry_minutes then (Inl validation_error, w)
      else
        let media_path = path_join HLS_ROOT (internal_media_id @ ''.mp4'');
            hls_dir = path_join HLS_ROOT internal_media_id;
            w1 = makedirs w hls_dir;
            w2 = write_file w1 media_path media
        in case generate_hls enc w2 media_path hls_dir of
             (Inl e, w3) \<Rightarrow>
               (let w4 = rmtree w3 hls_dir;
                    w5 = (if path_exists w4 media_path then remove w4 media_path else w4)
                in (Inl (HTTPException 500 (''Encoding failed: '' @ e @ ''!'')), w5))
           | (Inr _, w3) \<Rightarrow>
               (let w4 = (if path_exists w3 media_path then remove w3 media_path else w3);
                    media_data = [(''public_id'', PStr public_media_id),
                                  (''internal_id'', PStr internal_media_id),
                                  (''access_key'', PStr access_key),
                                  (''admin_key'', PStr admin_key),
                                  (''upload_time'', PStr (isoformat L now)),
                                  (''expiry_minutes'', PInt expiry_minutes)];
                    w5 = store_video L now w4 public_media_id media_data
                in case create_access_token L E now token_id public_media_id access_key
                          expiry_minutes of
                     Inl _ \<Rightarrow> (Inl (Unhandled ''PyJWTError''), w5)
                   | Inr access_token \<Rightarrow>
                       (Inr (Json
                          [(''media_id'', PStr public_media_id),
                           (''access_token'', PStr (token_text L access_token)),
                           (''admin_key'', PStr admin_key),
                           (''playlist_url'', PStr (base_url @ ''stream/'' @ public_media_id
                              @ ''/playlist.m3u8?token='' @ token_text L access_token)),
                           (''expires_in_minutes'', PInt expiry_minutes),
                           (''message'', PStr ''Media uploaded and processed successfully. IMPORTANT: Save the admin_key - you'll need it for token refresh, deletion, and other admin operations!'')]),
                        w5)))"

definition refresh_access_token ::
  "lib \<Rightarrow> env \<Rightarrow> int \<Rightarrow> string \<Rightarrow> string \<Rightarrow> world \<Rightarrow> string \<Rightarrow> string \<Rightarrow> int \<Rightarrow>
   (failure + response) \<times> world" where
  "refresh_access_token L E now token_id base_url w media_id admin_key expiry_minutes =
     (if \<not> in_bounds expiry_minutes then (Inl validation_error, w)
      else (case get_video w media_id of
        None \<Rightarrow> (Inl (HTTPException 404 ''Media not found!''), w)
      | Some media_data \<Rightarrow>
          if media_data = [] then (Inl (HTTPException 404 ''Media not found!''), w)
          else if map_of media_data ''admin_key'' \<noteq> Some (PStr admin_key)
               then (Inl (HTTPException 403 ''Invalid admin key!''), w)
          else (case str_field media_data ''internal_id'' of
            Inl e \<Rightarrow> (Inl e, w)
          | Inr internal_id \<Rightarrow>
              (let hls_dir = path_join HLS_ROOT internal_id;
                   playlist_path = path_join hls_dir ''playlist.m3u8''
               in if \<not> path_exists w playlist_path
                  then (Inl (HTTPException 404 ''Media files not found!''), w)
                  else (case map_of media_data ''access_key'' of
                    None \<Rightarrow> (Inl (Unhandled ''KeyError''), w)
                  | Some (PStr access_key) \<Rightarrow>
                      (case create_access_token L E now token_id media_id access_key
                              expiry_minutes of
                         Inl _ \<Rightarrow> (Inl (Unhandled ''PyJWTError''), w)
                       | Inr access_token \<Rightarrow>
                           (let m1 = AList.update ''expiry_minutes'' (PInt expiry_minutes)
                                       media_data;
                                m2 = AList.update ''last_token_refresh''
                                       (PStr (isoformat L now)) m1;
                                w' = snd (update_video L now w media_id m2)
                            in (Inr (Json
                                  [(''media_id'', PStr media_id),
                                   (''access_token'', PStr (token_text L access_token)),
                                   (''playlist_url'', PStr (base_url @ ''stream/'' @ media_id
                                      @ ''/playlist.m3u8?token='' @ token_text L access_token)),
                                   (''expires_in_minutes'', PInt expiry_minutes),
                                   (''message'', PStr ''Access token refreshed successfully!'')]),
                                w')))
                  | Some _ \<Rightarrow> (Inl (Unhandled ''AttributeError''), w))))))"

definition get_playlist ::
  "lib \<Rightarrow> env \<Rightarrow> int \<Rightarrow> world \<Rightarrow> string \<Rightarrow> token \<Rightarrow> failure + response" where
  "get_playlist L E now w media_id access_token =
     (case get_video w media_id of
        None \<Rightarrow> Inl (HTTPException 404 ''Media not found!'')
      | Some media_data \<Rightarrow>
          if media_data = [] then Inl (HTTPException 404 ''Media not found!'')
          else (case map_of media_data ''access_key'' of
            None \<Rightarrow> Inl (Unhandled ''KeyError'')
          | Some key \<Rightarrow>
              if \<not> token_accepted L E now access_token media_id key
              then Inl (HTTPException 403 ''Invalid or expired access token!'')
              else (case str_field media_data ''internal_id'' of
                Inl e \<Rightarrow> Inl e
              | Inr internal_id \<Rightarrow>
                  (let playlist_path =
                         path_join (path_join HLS_ROOT internal_id) ''playlist.m3u8''
                   in if \<not> path_exists w playlist_path
                      then Inl (HTTPException 404 ''Playlist not found!'')
                      else (case rewrite_playlist_with_auth_urls w playlist_path media_id
                                   (token_text L access_token) of
                        Inl e \<Rightarrow> Inl e
                      | Inr updated_playlist \<Rightarrow>
                          Inr (Body updated_playlist ''application/vnd.apple.mpegurl''))))))"

definition get_segment ::
  "lib \<Rightarrow> env \<Rightarrow> int \<Rightarrow> world \<Rightarrow> string \<Rightarrow> string \<Rightarrow> token \<Rightarrow> failure + response" where
  "get_segment L E now w media_id segment_name access_token =
     (case get_video w media_id of
        None \<Rightarrow> Inl (HTTPException 404 ''Media not found!'')
      | Some media_data \<Rightarrow>
          if media_data = [] then Inl (HTTPException 404 ''Media not found!'')
          else (case map_of media_data ''access_key'' of
            None \<Rightarrow> Inl (Unhandled ''KeyError'')
          | Some key \<Rightarrow>
              if \<not> token_accepted L E now access_token media_id key
              then Inl (HTTPException 403 ''Invalid or expired access token!'')
              else if \<not> suffix ''.ts'' segment_name \<or> CHR ''/'' \<in> set segment_name
                      \<or> sublist ''..'' segment_name
                   then Inl (HTTPException 400 ''Invalid segment name!'')
              else (case str_field media_data ''internal_id'' of
                Inl e \<Rightarrow> Inl e
              | Inr internal_id \<Rightarrow>
                  (let segment_path =
                         path_join (path_join HLS_ROOT internal_id) segment_name;
                       abs_hls_dir = abspath (cwd w) (path_join HLS_ROOT internal_id);
                       norm_segment_path = abspath (cwd w) (normpath segment_path)
                   in if \<not> prefix (abs_hls_dir @ ''/'') norm_segment_path
                      then Inl (HTTPException 400 ''Invalid segment path!'')
                      else if \<not> path_exists w norm_segment_path
                      then Inl (HTTPException 404 ''Segment not found'')
                      else Inr (FileResponse norm_segment_path ''video/MP2T'')))))"

definition delete_media :: "world \<Rightarrow> string \<Rightarrow> string \<Rightarrow> (failure + response) \<times> world" where
  "delete_media w media_id admin_key =
     (case get_video w media_id of
        None \<Rightarrow> (Inl (HTTPException 404 ''Media not found!''), w)
      | Some media_data \<Rightarrow>
          if media_data = [] then (Inl (HTTPException 404 ''Media not found!''), w)
          else if map_of media_data ''admin_key'' \<noteq> Some (PStr admin_key)
               then (Inl (HTTPException 403 ''Invalid admin key!''), w)
          else (case map_of media_data ''internal_id'' of
            None \<Rightarrow> (Inl (Unhandled ''KeyError''), w)
          | Some v \<Rightarrow>
              (let contents = load_database w;
                   w1 = save_database w (AList.delete media_id contents)
               in (case v of
                    PStr internal_id \<Rightarrow>
                      (let hls_dir = path_join HLS_ROOT internal_id;
                           w2 = (if path_exists w1 hls_dir then rmtree w1 hls_dir else w1)
                       in (Inr (Json [(''message'', PStr ''Media successfully deleted!'')]), w2))
                  | _ \<Rightarrow> (Inl (Unhandled ''TypeError''), w1)))))"

definition get_media_info :: "world \<Rightarrow> string \<Rightarrow> string \<Rightarrow> failure + response" where
  "get_media_info w media_id admin_key =
     (case get_video w media_id of
        None \<Rightarrow> Inl (HTTPException 404 ''Media not found!'')
      | Some media_data \<Rightarrow>
          if media_data = [] then Inl (HTTPException 404 ''Media not found!'')
          else if map_of media_data ''admin_key'' \<noteq> Some (PStr admin_key)
               then Inl (HTTPException 403 ''Invalid admin key!'')
          else (case map_of media_data ''upload_time'' of
            None \<Rightarrow> Inl (Unhandled ''KeyError'')
          | Some upload_time \<Rightarrow>
              Inr (Json
                [(''media_id'', PStr media_id),
                 (''upload_time'', upload_time),
                 (''expiry_minutes'',
                    (case map_of media_data ''expiry_minutes'' of
                       None \<Rightarrow> PInt 60
                     | Some v \<Rightarrow> v)),
                 (''last_token_refresh'', get_or_none media_data ''last_token_refresh''),
                 (''created_at'', get_or_none media_data ''created_at''),
                 (''updated_at'', get_or_none media_data ''updated_at'')])))"

definition extend_media_expiry ::
  "lib \<Rightarrow> int \<Rightarrow> world \<Rightarrow> string \<Rightarrow> string \<Rightarrow> int \<Rightarrow> (failure + response) \<times> world" where
  "extend_media_expiry L now w media_id admin_key additional_minutes =
     (if \<not> in_bounds additional_minutes then (Inl validation_error, w)
      else (case get_video w media_id of
        None \<Rightarrow> (Inl (HTTPException 404 ''Media not found!''), w)
      | Some media_data \<Rightarrow>
          if media_data = [] then (Inl (HTTPException 404 ''Media not found!''), w)
          else if map_of media_data ''admin_key'' \<noteq> Some (PStr admin_key)
               then (Inl (HTTPException 403 ''Invalid admin key!''), w)
          else
            (let current_expiry =
                  (case map_of media_data ''expiry_minutes'' of
                     None \<Rightarrow> PInt 60
                   | Some v \<Rightarrow> v)
             in (case py_int current_expiry of
                 None \<Rightarrow> (Inl (Unhandled ''TypeError''), w)
               | Some cur \<Rightarrow>
                   (let new_expiry = min (cur + additional_minutes) 10080;
                        m1 = AList.update ''expiry_minutes'' (PInt new_expiry) media_data;
                        m2 = AList.update ''expiry_extended_at'' (PStr (isoformat L now)) m1;
                        w' = snd (update_video L now w media_id m2)
                    in (Inr (Json
                          [(''media_id'', PStr media_id),
                           (''previous_expiry_minutes'', current_expiry),
                           (''new_expiry_minutes'', PInt new_expiry),
                           (''extended_by_minutes'', PInt (new_expiry - cur)),
                           (''message'', PStr ''Media expiry successfully extended!'')]),
                        w'))))))"

section \<open>Auxiliary definitions for the properties\<close>

text \<open>
  The payload and the header of the token that \<open>create_access_token\<close> returns, after
  the library has turned the two \<open>datetime\<close> values into timestamps in whole seconds.
\<close>

definition access_payload :: "lib \<Rightarrow> int \<Rightarrow> string \<Rightarrow> string \<Rightarrow> string \<Rightarrow> int \<Rightarrow> dict" where
  "access_payload L now token_id media_id access_key m =
     [(''media_id'', PStr media_id),
      (''access_key_hash'', PStr (hash_string L access_key)),
      (''iat'', PInt (now div 1000000)),
      (''exp'', PInt ((now + 60000000 * m) div 1000000)),
      (''jti'', PStr token_id),
      (''token_type'', PStr ''access'')]"

definition jose_header :: "env \<Rightarrow> dict" where
  "jose_header E = [(''alg'', PStr (ALGORITHM E)), (''typ'', PStr ''JWT'')]"

text \<open>
  Concrete stand-ins for the library functions and the configuration, on which the
  definitions can be run.
\<close>

definition sample_lib :: lib where
  "sample_lib = \<lparr>sha256_hexdigest = (\<lambda>s. ''#'' @ s),
                  hmac_sign = (\<lambda>alg key hp. alg @ key @ concat (map fst (snd hp))),
                  compact_serialization = (\<lambda>t. ''eyJ.'' @ snd (snd t)),
                  isoformat = (\<lambda>t. ''T'')\<rparr>"

definition sample_env :: env where
  "sample_env = \<lparr>SECRET_KEY = ''secret'', ALGORITHM = ''HS256''\<rparr>"

text \<open>A store with one record, and the files of its resource.\<close>

definition sample_record :: dict where
  "sample_record =
     [(''public_id'', PStr ''pub''), (''internal_id'', PStr ''int''),
      (''access_key'', PStr ''key''), (''admin_key'', PStr ''adm''),
      (''upload_time'', PStr ''T''), (''expiry_minutes'', PInt 60)]"

definition sample_world :: world where
  "sample_world =
     \<lparr>cwd = ''/srv'',
      files = [''/srv/media/hls/int'' \<mapsto> Dir,
               ''/srv/media/hls/int/playlist.m3u8'' \<mapsto> File ''segment3.ts'',
               ''/srv/media/hls/int/segment3.ts'' \<mapsto> File ''video''],
      db_file = Some (Document [(''pub'', sample_record)]),
      backup_file = None\<rparr>"

text \<open>
  The token issued for the sample record at 1000.9 seconds, valid for 60 minutes, and a
  token issued at the same instant that is valid for one minute.
\<close>

definition sample_token :: token where
  "sample_token =
     (case create_access_token sample_lib sample_env 1000900000 ''0f'' ''pub'' ''key'' 60 of
        Inl _ \<Rightarrow> Garbled []
      | Inr t \<Rightarrow> t)"

definition minute_token :: token where
  "minute_token =
     (case create_access_token sample_lib sample_env 1000900000 ''0f'' ''vid'' ''key'' 1 of
        Inl _ \<Rightarrow> Garbled []
      | Inr t \<Rightarrow> t)"

text \<open>When a run of the encoder makes \<open>generate_hls\<close> raise, and with which message.\<close>

definition encoder_fails :: "encoder \<Rightarrow> bool" where
  "encoder_fails enc = (case enc of Cannot_start _ \<Rightarrow> True | Exits returncode _ _ \<Rightarrow> returncode \<noteq> 0)"

definition encoder_message :: "encoder \<Rightarrow> string" where
  "encoder_message enc =
     (case enc of Cannot_start msg \<Rightarrow> msg | Exits _ stderr _ \<Rightarrow> ''FFmpeg error: '' @ stderr)"

text \<open>The sample store with the expiry of its record changed.\<close>

definition sample_update :: store where
  "sample_update = [(''pub'', AList.update ''expiry_minutes'' (PInt 5) sample_record)]"

text \<open>The number of places of a text at which a given text starts.\<close>

fun occurrences :: "string \<Rightarrow> string \<Rightarrow> nat" where
  "occurrences sub [] = (if sub = [] then 1 else 0)"
| "occurrences sub (c # cs) = (if prefix sub (c # cs) then 1 else 0) + occurrences sub cs"

section \<open>Properties of the token codec\<close>

lemma hmac_not_none: "a \<in> set hmac_algorithms \<Longrightarrow> a \<noteq> ''none'' \<and> a \<noteq> []"
  by (auto simp: hmac_algorithms_def)

lemma sample_env_hmac: "ALGORITHM sample_env \<in> set hmac_algorithms"
  by (simp add: sample_env_def hmac_algorithms_def)

lemma create_access_token_Inr:
  assumes "ALGORITHM E \<in> set hmac_algorithms"
  shows "create_access_token L E now jti mid key m =
           Inr (Compact \<lparr>header = jose_header E,
                          payload = access_payload L now jti mid key m,
                          signature = hmac_sign L (ALGORITHM E)
                            (generate_signing_key L (SECRET_KEY E) key)
                            (jose_header E, access_payload L now jti mid key m)\<rparr>)"
  using assms hmac_not_none[OF assms]
  by (simp add: create_access_token_def jwt_encode_def numeric_date_def is_datetime_def
      access_payload_def jose_header_def Let_def)

lemma create_access_token_payload:
  assumes "create_access_token L E now jti mid key m = Inr tok"
  shows "\<exists>j. tok = Compact j \<and> payload j = access_payload L now jti mid key m"
  using assms
  by (auto simp: create_access_token_def jwt_encode_def numeric_date_def is_datetime_def
      access_payload_def Let_def split: if_splits)

lemma create_admin_token_payload:
  assumes "create_admin_token L E now jti ak h = Inr tok"
  shows "\<exists>j. tok = Compact j \<and> map_of (payload j) ''token_type'' = Some (PStr ''admin'')"
  using assms
  by (auto simp: create_admin_token_def jwt_encode_def numeric_date_def is_datetime_def
      Let_def split: if_splits)

lemma create_admin_token_Inr:
  assumes "ALGORITHM E \<in> set hmac_algorithms"
  shows "\<exists>tok. create_admin_token L E now jti ak h = Inr tok"
  using assms hmac_not_none[OF assms]
  by (simp add: create_admin_token_def jwt_encode_def numeric_date_def is_datetime_def
      Let_def)

lemma validate_claims_payload: "validate_claims now pl = Inr p \<Longrightarrow> p = pl"
  by (auto simp: validate_claims_def split: option.splits)

lemma jwt_decode_payload:
  "jwt_decode L now (Compact j) key algs = Inr p \<Longrightarrow> p = payload j"
  by (auto simp: jwt_decode_def split: option.splits pyval.splits if_splits
      dest: validate_claims_payload)

text \<open>A token that verifies carries the kind \<open>access\<close> and the expected identity.\<close>

lemma verify_needs_access:
  assumes "verify_access_token L E now (Compact j) rid key"
  shows "map_of (payload j) ''token_type'' = Some (PStr ''access'')"
    and "map_of (payload j) ''media_id'' = Some (PStr rid)"
proof -
  from assms obtain p where d: "jwt_decode L now (Compact j)
      (generate_signing_key L (SECRET_KEY E) key) [ALGORITHM E] = Inr p"
    and t: "map_of p ''token_type'' = Some (PStr ''access'')"
    and m: "map_of p ''media_id'' = Some (PStr rid)"
    by (auto simp: verify_access_token_def Let_def split: sum.splits if_splits)
  from jwt_decode_payload[OF d] t m
  show "map_of (payload j) ''token_type'' = Some (PStr ''access'')"
    and "map_of (payload j) ''media_id'' = Some (PStr rid)" by simp_all
qed

lemma seconds_of_expiry:
  "(iat + 60000000 * m) div 1000000 = iat div 1000000 + 60 * (m::int)"
proof -
  have "iat + 60000000 * m = iat + (60 * m) * 1000000" by simp
  then show ?thesis by (simp only: div_mult_self1)
qed

lemma floor_second: "(t::int) div 1000000 * 1000000 \<le> t" "t < t div 1000000 * 1000000 + 1000000"
  by presburger+

lemma validate_access_payload:
  "validate_claims now (access_payload L iat jti mid key m) =
     (if iat div 1000000 * 1000000 > now then Inl ImmatureSignatureError
      else if (iat div 1000000 + 60 * m) * 1000000 \<le> now then Inl ExpiredSignatureError
      else Inr (access_payload L iat jti mid key m))"
  by (simp add: validate_claims_def validate_iat_def validate_nbf_def validate_exp_def
      access_payload_def py_int_def seconds_of_expiry)

lemma verify_expired:
  assumes "payload j = access_payload L iat jti mid key m"
    and "(iat div 1000000 + 60 * m) * 1000000 \<le> now"
  shows "\<not> verify_access_token L E now (Compact j) rid' key'"
proof
  assume "verify_access_token L E now (Compact j) rid' key'"
  then obtain p where d: "jwt_decode L now (Compact j)
      (generate_signing_key L (SECRET_KEY E) key') [ALGORITHM E] = Inr p"
    by (auto simp: verify_access_token_def Let_def split: sum.splits)
  then have "validate_claims now (payload j) = Inr p"
    by (auto simp: jwt_decode_def split: option.splits pyval.splits if_splits)
  with assms show False
    by (simp add: validate_access_payload split: if_splits)
qed

lemma verify_fresh:
  assumes alg: "ALGORITHM E \<in> set hmac_algorithms" and "iat \<le> now"
    and "now < (iat div 1000000 + 60 * m) * 1000000"
  shows "verify_access_token L E now
           (Compact \<lparr>header = jose_header E,
                     payload = access_payload L iat jti mid key m,
                     signature = hmac_sign L (ALGORITHM E)
                       (generate_signing_key L (SECRET_KEY E) key)
                       (jose_header E, access_payload L iat jti mid key m)\<rparr>) mid key"
proof -
  let ?tok = "Compact \<lparr>header = jose_header E,
                     payload = access_payload L iat jti mid key m,
                     signature = hmac_sign L (ALGORITHM E)
                       (generate_signing_key L (SECRET_KEY E) key)
                       (jose_header E, access_payload L iat jti mid key m)\<rparr>"
  have "iat div 1000000 * 1000000 \<le> now"
    using floor_second(1)[of iat] assms(2) by linarith
  then have d: "jwt_decode L now ?tok (generate_signing_key L (SECRET_KEY E) key) [ALGORITHM E]
             = Inr (access_payload L iat jti mid key m)"
    using assms hmac_not_none[OF alg]
    by (simp add: jwt_decode_def validate_access_payload jose_header_def)
  show ?thesis
    by (simp add: verify_access_token_def d Let_def) (simp add: access_payload_def)
qed

lemma minute_token_issued:
  "create_access_token sample_lib sample_env 1000900000 ''0f'' ''vid'' ''key'' 1 = Inr minute_token"
  by (simp add: minute_token_def create_access_token_Inr[OF sample_env_hmac])

text \<open>
  C1 as stated fails. The token's \<open>exp\<close> claim is the issue time cut to whole seconds,
  plus the validity: a token issued at 1000.9 seconds for one minute carries \<open>exp = 1060\<close>,
  and at 1060.5 seconds, which is before \<open>issuedAt + 1\<close> minute, it is refused.
\<close>

theorem token_roundtrip_counterexample:
  "create_access_token sample_lib sample_env 1000900000 ''0f'' ''vid'' ''key'' 1
     = Inr minute_token \<and>
   (1000900000::int) \<le> 1060500000 \<and>
   (1060500000::int) < 1000900000 + 60000000 * 1 \<and>
   \<not> verify_access_token sample_lib sample_env 1060500000 minute_token ''vid'' ''key''"
proof -
  obtain j where j: "minute_token = Compact j"
    "payload j = access_payload sample_lib 1000900000 ''0f'' ''vid'' ''key'' 1"
    using create_access_token_payload[OF minute_token_issued] by blast
  have "\<not> verify_access_token sample_lib sample_env 1060500000 (Compact j) ''vid'' ''key''"
    by (rule verify_expired[OF j(2)]) simp
  with j(1) minute_token_issued show ?thesis by simp
qed

text \<open>
  C1, amended. Round trip of the token codec. With a symmetric algorithm configured,
  \<open>create_access_token\<close> returns a token, for every identity, key and validity \<open>m\<close>
  (so for every \<open>m\<close> from 1 to 10080), and at a time from the issue on
  \<open>verify_access_token\<close> with the same identity and key answers \<open>True\<close> exactly when
  the time is strictly before the token's expiry: the issue time cut to whole seconds,
  plus \<open>m\<close> minutes.
\<close>

theorem token_roundtrip:
  assumes "ALGORITHM E \<in> set hmac_algorithms"
  shows "\<exists>tok. create_access_token L E iat jti mid key m = Inr tok \<and>
           (\<forall>now. iat \<le> now \<longrightarrow>
              (verify_access_token L E now tok mid key \<longleftrightarrow>
               now < (iat div 1000000 + 60 * m) * 1000000))"
proof -
  let ?tok = "Compact \<lparr>header = jose_header E,
                     payload = access_payload L iat jti mid key m,
                     signature = hmac_sign L (ALGORITHM E)
                       (generate_signing_key L (SECRET_KEY E) key)
                       (jose_header E, access_payload L iat jti mid key m)\<rparr>"
  have c: "create_access_token L E iat jti mid key m = Inr ?tok"
    by (rule create_access_token_Inr[OF assms])
  have "verify_access_token L E now ?tok mid key \<longleftrightarrow>
      now < (iat div 1000000 + 60 * m) * 1000000" if "iat \<le> now" for now
  proof (cases "now < (iat div 1000000 + 60 * m) * 1000000")
    case True
    then show ?thesis using verify_fresh[OF assms that] by simp
  next
    case False
    then have "(iat div 1000000 + 60 * m) * 1000000 \<le> now" by simp
    then have "\<not> verify_access_token L E now ?tok mid key"
      by (intro verify_expired[of _ L iat jti mid key m]) simp_all
    with False show ?thesis by simp
  qed
  with c show ?thesis by blast
qed

theorem token_roundtrip_witness:
  "ALGORITHM sample_env \<in> set hmac_algorithms \<and>
   (\<exists>tok. create_access_token sample_lib sample_env 1000900000 ''0f'' ''vid'' ''key'' 1
            = Inr tok \<and>
          (1000900000::int) \<le> 1059999999 \<and>
          (1059999999::int) < (1000900000 div 1000000 + 60 * 1) * 1000000 \<and>
          verify_access_token sample_lib sample_env 1059999999 tok ''vid'' ''key'' \<and>
          (1000900000::int) \<le> 1060000000 \<and>
          \<not> verify_access_token sample_lib sample_env 1060000000 tok ''vid'' ''key'')"
proof -
  from token_roundtrip[OF sample_env_hmac, of sample_lib 1000900000 "''0f''" "''vid''" "''key''" 1]
  obtain tok where
    c: "create_access_token sample_lib sample_env 1000900000 ''0f'' ''vid'' ''key'' 1 = Inr tok" and
    v: "\<And>now. 1000900000 \<le> now \<Longrightarrow>
          verify_access_token sample_lib sample_env now tok ''vid'' ''key'' \<longleftrightarrow>
          now < (1000900000 div 1000000 + 60 * 1) * 1000000"
    by blast
  have "verify_access_token sample_lib sample_env 1059999999 tok ''vid'' ''key''"
    using v[of 1059999999] by simp
  moreover have "\<not> verify_access_token sample_lib sample_env 1060000000 tok ''vid'' ''key''"
    using v[of 1060000000] by simp
  ultimately show ?thesis using c sample_env_hmac by auto
qed

text \<open>
  C2. The subject and kind checks. A token issued for resource \<open>a\<close> is refused for any
  other resource \<open>b\<close>, whatever the access key of \<open>b\<close> is (equal to the key of \<open>a\<close>
  or not) and at any time; a token whose payload has the kind \<open>admin\<close> is refused, however
  it is signed and whenever it expires; so is every token that \<open>create_admin_token\<close>
  returns.
\<close>

theorem subject_and_kind_checks:
  "(create_access_token L E iat jti a key_a m = Inr tok \<and> a \<noteq> b \<longrightarrow>
      \<not> verify_access_token L E now tok b key_b) \<and>
   (map_of (payload j) ''token_type'' = Some (PStr ''admin'') \<longrightarrow>
      \<not> verify_access_token L E now (Compact j) rid key) \<and>
   (create_admin_token L E iat' jti' admin_key hours = Inr tok' \<longrightarrow>
      \<not> verify_access_token L E now tok' rid key)"
proof (intro conjI impI)
  assume h: "create_access_token L E iat jti a key_a m = Inr tok \<and> a \<noteq> b"
  then obtain j' where j': "tok = Compact j'" "payload j' = access_payload L iat jti a key_a m"
    using create_access_token_payload by blast
  show "\<not> verify_access_token L E now tok b key_b"
  proof
    assume "verify_access_token L E now tok b key_b"
    from verify_needs_access(2)[OF this[unfolded j'(1)]] j'(2) h
    show False by (simp add: access_payload_def)
  qed
next
  assume "map_of (payload j) ''token_type'' = Some (PStr ''admin'')"
  then show "\<not> verify_access_token L E now (Compact j) rid key"
    using verify_needs_access(1)[of L E now j rid key] by auto
next
  assume "create_admin_token L E iat' jti' admin_key hours = Inr tok'"
  then obtain j' where "tok' = Compact j'"
    "map_of (payload j') ''token_type'' = Some (PStr ''admin'')"
    using create_admin_token_payload by blast
  then show "\<not> verify_access_token L E now tok' rid key"
    using verify_needs_access(1)[of L E now j' rid key] by auto
qed

theorem subject_and_kind_checks_witness:
  "(\<exists>tok. create_access_token sample_lib sample_env 1000900000 ''0f'' ''a'' ''k'' 1 = Inr tok \<and>
          ''a'' \<noteq> ''b'' \<and>
          \<not> verify_access_token sample_lib sample_env 1030000000 tok ''b'' ''k'' \<and>
          \<not> verify_access_token sample_lib sample_env 1030000000 tok ''b'' ''other'') \<and>
   map_of (payload \<lparr>header = [], payload = [(''token_type'', PStr ''admin'')],
                    signature = []\<rparr>) ''token_type'' = Some (PStr ''admin'') \<and>
   \<not> verify_access_token sample_lib sample_env 1030000000
       (Compact \<lparr>header = [], payload = [(''token_type'', PStr ''admin'')],
                 signature = []\<rparr>) ''a'' ''k'' \<and>
   (\<exists>tok'. create_admin_token sample_lib sample_env 1000900000 ''0f'' ''adm'' 24 = Inr tok' \<and>
           \<not> verify_access_token sample_lib sample_env 1030000000 tok' ''a'' ''k'')"
proof -
  obtain t where t: "create_access_token sample_lib sample_env 1000900000 ''0f'' ''a'' ''k'' 1 = Inr t"
    using create_access_token_Inr[OF sample_env_hmac] by blast
  obtain t' where t': "create_admin_token sample_lib sample_env 1000900000 ''0f'' ''adm'' 24 = Inr t'"
    using create_admin_token_Inr[OF sample_env_hmac] by blast
  have ne: "''a'' \<noteq> ''b''" by simp
  let ?j = "\<lparr>header = [], payload = [(''token_type'', PStr ''admin'')], signature = []\<rparr>"
  have k: "map_of (payload ?j) ''token_type'' = Some (PStr ''admin'')" by simp
  note th = subject_and_kind_checks[where L = sample_lib and E = sample_env and now = 1030000000
      and iat = 1000900000 and jti = "''0f''" and a = "''a''" and key_a = "''k''" and m = 1
      and tok = t and b = "''b''" and j = ?j and rid = "''a''" and key = "''k''"
      and iat' = 1000900000 and jti' = "''0f''" and admin_key = "''adm''" and hours = 24
      and tok' = t']
  from th[where key_b = "''k''"] th[where key_b = "''other''"] t t' ne k
  show ?thesis by blast
qed

text \<open>
  C3. The expiry boundary. The token issued at \<open>iat\<close> with a validity of \<open>m\<close> minutes
  is refused at every time strictly after \<open>iat + m\<close> minutes, whatever identity and key
  it is checked against, and it is accepted one second before that instant for the
  identity and key it was issued for. Times are in microseconds.
\<close>

theorem expiry_boundary:
  assumes "ALGORITHM E \<in> set hmac_algorithms"
  shows "\<exists>tok. create_access_token L E iat jti mid key m = Inr tok \<and>
           (\<forall>now rid' key'. iat + 60000000 * m < now \<longrightarrow>
               \<not> verify_access_token L E now tok rid' key') \<and>
           (1 \<le> m \<longrightarrow>
               verify_access_token L E (iat + 60000000 * m - 1000000) tok mid key)"
proof -
  let ?tok = "Compact \<lparr>header = jose_header E,
                     payload = access_payload L iat jti mid key m,
                     signature = hmac_sign L (ALGORITHM E)
                       (generate_signing_key L (SECRET_KEY E) key)
                       (jose_header E, access_payload L iat jti mid key m)\<rparr>"
  have c: "create_access_token L E iat jti mid key m = Inr ?tok"
    by (rule create_access_token_Inr[OF assms])
  have late: "\<not> verify_access_token L E now ?tok rid' key'" if "iat + 60000000 * m < now"
    for now rid' key'
  proof -
    have "(iat div 1000000 + 60 * m) * 1000000 \<le> now"
      using floor_second(1)[of iat] that by (simp add: algebra_simps)
    then show ?thesis by (intro verify_expired[of _ L iat jti mid key m]) simp_all
  qed
  have early: "verify_access_token L E (iat + 60000000 * m - 1000000) ?tok mid key" if "1 \<le> m"
  proof -
    have "iat \<le> iat + 60000000 * m - 1000000" using that by simp
    moreover have "iat + 60000000 * m - 1000000 < (iat div 1000000 + 60 * m) * 1000000"
      using floor_second(2)[of iat] by (simp add: algebra_simps)
    ultimately show ?thesis by (rule verify_fresh[OF assms])
  qed
  from c late early show ?thesis by blast
qed

theorem expiry_boundary_witness:
  "ALGORITHM sample_env \<in> set hmac_algorithms \<and>
   (\<exists>tok. create_access_token sample_lib sample_env 1000900000 ''0f'' ''vid'' ''key'' 1
            = Inr tok \<and>
          (1000900000::int) + 60000000 * 1 < 1061900000 \<and>
          \<not> verify_access_token sample_lib sample_env 1061900000 tok ''vid'' ''key'' \<and>
          (1000900000::int) + 60000000 * 1 < 1060900001 \<and>
          \<not> verify_access_token sample_lib sample_env 1060900001 tok ''vid'' ''key'' \<and>
          (1::int) \<le> 1 \<and>
          verify_access_token sample_lib sample_env 1059900000 tok ''vid'' ''key'')"
proof -
  from expiry_boundary[OF sample_env_hmac, of sample_lib 1000900000 "''0f''" "''vid''" "''key''" 1]
  obtain tok where
    c: "create_access_token sample_lib sample_env 1000900000 ''0f'' ''vid'' ''key'' 1 = Inr tok" and
    late: "\<And>now rid' key'. 1000900000 + 60000000 * 1 < now \<Longrightarrow>
             \<not> verify_access_token sample_lib sample_env now tok rid' key'" and
    early: "1 \<le> (1::int) \<Longrightarrow>
             verify_access_token sample_lib sample_env (1000900000 + 60000000 * 1 - 1000000)
               tok ''vid'' ''key''"
    by blast
  have "\<not> verify_access_token sample_lib sample_env 1061900000 tok ''vid'' ''key''"
    using late[of 1061900000] by simp
  moreover have "\<not> verify_access_token sample_lib sample_env 1060900001 tok ''vid'' ''key''"
    using late[of 1060900001] by simp
  moreover have "verify_access_token sample_lib sample_env 1059900000 tok ''vid'' ''key''"
    using early by simp
  ultimately show ?thesis using c sample_env_hmac by auto
qed

lemma load_save [simp]: "load_database (save_database w d) = d"
  by (simp add: save_database_def save_database_run_def progress_def remove_backup_def
      backup_current_def load_database_def)

lemma save_files [simp]: "files (save_database w d) = files w" "cwd (save_database w d) = cwd w"
  by (simp_all add: save_database_def save_database_run_def progress_def remove_backup_def
      backup_current_def)

lemma get_video_save: "get_video (save_database w d) i = map_of d i"
  by (simp add: get_video_def)

lemma update_video_snd:
  "get_video w i = Some md \<Longrightarrow>
   snd (update_video L now w i v) =
     save_database w (AList.update i (AList.update ''updated_at'' (PStr (isoformat L now)) v)
        (load_database w))"
  by (simp add: update_video_def get_video_def Let_def)

lemma update_ne_Nil [simp]: "AList.update k v al \<noteq> []"
  by (cases al) auto

lemma get_sample: "get_video sample_world i = (if i = ''pub'' then Some sample_record else None)"
  by (simp add: get_video_def load_database_def sample_world_def)

section \<open>Properties of the admin operations\<close>

text \<open>
  C7. The arithmetic of extend-expiry. For an existing record whose stored
  \<open>expiry_minutes\<close> is \<open>prev\<close>, a call with the right admin key and
  \<open>additional_minutes = n\<close> between 1 and 10080 answers with
  \<open>previous_expiry_minutes = prev\<close>, \<open>new_expiry_minutes = min (prev + n) 10080\<close> and
  \<open>extended_by_minutes = new_expiry_minutes - prev\<close>, and the record read back from the
  store afterwards holds \<open>min (prev + n) 10080\<close>, which is at most 10080.
\<close>

theorem extend_expiry_arithmetic:
  assumes "get_video w mid = Some md"
    and "map_of md ''admin_key'' = Some (PStr admin_key)"
    and "map_of md ''expiry_minutes'' = Some (PInt prev)"
    and "1 \<le> n" and "n \<le> 10080"
  shows "\<exists>w' md'.
           extend_media_expiry L now w mid admin_key n =
             (Inr (Json [(''media_id'', PStr mid),
                         (''previous_expiry_minutes'', PInt prev),
                         (''new_expiry_minutes'', PInt (min (prev + n) 10080)),
                         (''extended_by_minutes'', PInt (min (prev + n) 10080 - prev)),
                         (''message'', PStr ''Media expiry successfully extended!'')]), w') \<and>
           get_video w' mid = Some md' \<and>
           map_of md' ''expiry_minutes'' = Some (PInt (min (prev + n) 10080)) \<and>
           min (prev + n) 10080 \<le> 10080"
proof -
  from assms(2) have ne: "md \<noteq> []" by auto
  let ?new = "min (prev + n) 10080"
  let ?m2 = "AList.update ''expiry_extended_at'' (PStr (isoformat L now))
               (AList.update ''expiry_minutes'' (PInt ?new) md)"
  let ?md' = "AList.update ''updated_at'' (PStr (isoformat L now)) ?m2"
  let ?w' = "snd (update_video L now w mid ?m2)"
  have r: "extend_media_expiry L now w mid admin_key n =
             (Inr (Json [(''media_id'', PStr mid),
                         (''previous_expiry_minutes'', PInt prev),
                         (''new_expiry_minutes'', PInt ?new),
                         (''extended_by_minutes'', PInt (?new - prev)),
                         (''message'', PStr ''Media expiry successfully extended!'')]), ?w')"
    using assms ne by (simp add: extend_media_expiry_def in_bounds_def py_int_def Let_def)
  have g: "get_video ?w' mid = Some ?md'"
    by (simp add: update_video_snd[OF assms(1)] get_video_save update_conv')
  have e: "map_of ?md' ''expiry_minutes'' = Some (PInt ?new)"
    by (simp add: update_conv')
  from r g e show ?thesis by auto
qed

theorem extend_expiry_arithmetic_witness:
  "get_video sample_world ''pub'' = Some sample_record \<and>
   map_of sample_record ''admin_key'' = Some (PStr ''adm'') \<and>
   map_of sample_record ''expiry_minutes'' = Some (PInt 60) \<and>
   (1::int) \<le> 10060 \<and> (10060::int) \<le> 10080 \<and>
   (\<exists>w' md'.
      extend_media_expiry sample_lib 5 sample_world ''pub'' ''adm'' 10060 =
        (Inr (Json [(''media_id'', PStr ''pub''),
                    (''previous_expiry_minutes'', PInt 60),
                    (''new_expiry_minutes'', PInt 10080),
                    (''extended_by_minutes'', PInt 10020),
                    (''message'', PStr ''Media expiry successfully extended!'')]), w') \<and>
      get_video w' ''pub'' = Some md' \<and>
      map_of md' ''expiry_minutes'' = Some (PInt 10080))"
proof -
  have a: "get_video sample_world ''pub'' = Some sample_record" by (simp add: get_sample)
  have b: "map_of sample_record ''admin_key'' = Some (PStr ''adm'')"
    by (simp add: sample_record_def)
  have c: "map_of sample_record ''expiry_minutes'' = Some (PInt 60)"
    by (simp add: sample_record_def)
  from extend_expiry_arithmetic[OF a b c, of 10060 sample_lib 5] a b c
  show ?thesis by simp
qed

text \<open>
  What an admin operation changes, it changes for the holder of the stored admin key.
\<close>

lemma refresh_changes:
  assumes "snd (refresh_access_token L E now jti url w mid ak m) \<noteq> w"
  shows "\<exists>md. get_video w mid = Some md \<and> map_of md ''admin_key'' = Some (PStr ak)"
  using assms
  by (auto simp: refresh_access_token_def Let_def
      split: if_splits option.splits sum.splits pyval.splits)

lemma delete_changes:
  assumes "snd (delete_media w mid ak) \<noteq> w"
  shows "\<exists>md. get_video w mid = Some md \<and> map_of md ''admin_key'' = Some (PStr ak)"
  using assms
  by (auto simp: delete_media_def Let_def
      split: if_splits option.splits sum.splits pyval.splits)

lemma extend_changes:
  assumes "snd (extend_media_expiry L now w mid ak n) \<noteq> w"
  shows "\<exists>md. get_video w mid = Some md \<and> map_of md ''admin_key'' = Some (PStr ak)"
  using assms
  by (auto simp: extend_media_expiry_def Let_def
      split: if_splits option.splits sum.splits pyval.splits)

text \<open>
  C8. The admin gate. For refresh-token, delete, info and extend-expiry (with query
  parameters inside their bounds): when the store has no record under the identity, the
  answer is 404 whatever admin key is supplied, and the files are left as they were; when
  the record's stored admin key differs from the supplied one, the answer is 403 and the
  files are left as they were; and an operation that leaves the files changed was called
  with the stored admin key. The info operation never writes.
\<close>

theorem admin_gate:
  "(get_video w mid = None \<longrightarrow>
      (in_bounds m \<longrightarrow> refresh_access_token L E now jti url w mid ak m =
         (Inl (HTTPException 404 ''Media not found!''), w)) \<and>
      delete_media w mid ak = (Inl (HTTPException 404 ''Media not found!''), w) \<and>
      get_media_info w mid ak = Inl (HTTPException 404 ''Media not found!'') \<and>
      (in_bounds n \<longrightarrow> extend_media_expiry L now w mid ak n =
         (Inl (HTTPException 404 ''Media not found!''), w))) \<and>
   (get_video w mid = Some md \<and> map_of md ''admin_key'' = Some (PStr stored) \<and> stored \<noteq> ak
      \<longrightarrow>
      (in_bounds m \<longrightarrow> refresh_access_token L E now jti url w mid ak m =
         (Inl (HTTPException 403 ''Invalid admin key!''), w)) \<and>
      delete_media w mid ak = (Inl (HTTPException 403 ''Invalid admin key!''), w) \<and>
      get_media_info w mid ak = Inl (HTTPException 403 ''Invalid admin key!'') \<and>
      (in_bounds n \<longrightarrow> extend_media_expiry L now w mid ak n =
         (Inl (HTTPException 403 ''Invalid admin key!''), w))) \<and>
   (snd (refresh_access_token L E now jti url w mid ak m) \<noteq> w \<or>
    snd (delete_media w mid ak) \<noteq> w \<or>
    snd (extend_media_expiry L now w mid ak n) \<noteq> w \<longrightarrow>
      (\<exists>md'. get_video w mid = Some md' \<and> map_of md' ''admin_key'' = Some (PStr ak)))"
proof (intro conjI impI)
  assume "snd (refresh_access_token L E now jti url w mid ak m) \<noteq> w \<or>
    snd (delete_media w mid ak) \<noteq> w \<or>
    snd (extend_media_expiry L now w mid ak n) \<noteq> w"
  then show "\<exists>md'. get_video w mid = Some md' \<and> map_of md' ''admin_key'' = Some (PStr ak)"
    using refresh_changes delete_changes extend_changes by blast
qed (auto simp: refresh_access_token_def delete_media_def get_media_info_def
      extend_media_expiry_def)

lemma load_rmtree [simp]: "load_database (rmtree w d) = load_database w"
  by (simp add: rmtree_def load_database_def)

theorem admin_gate_witness:
  "get_video sample_world ''nope'' = None \<and> in_bounds 60 \<and>
   refresh_access_token sample_lib sample_env 5 ''0f'' ''http://h/'' sample_world ''nope'' ''adm'' 60
     = (Inl (HTTPException 404 ''Media not found!''), sample_world) \<and>
   delete_media sample_world ''nope'' ''adm''
     = (Inl (HTTPException 404 ''Media not found!''), sample_world) \<and>
   get_media_info sample_world ''nope'' ''adm'' = Inl (HTTPException 404 ''Media not found!'') \<and>
   extend_media_expiry sample_lib 5 sample_world ''nope'' ''adm'' 60
     = (Inl (HTTPException 404 ''Media not found!''), sample_world) \<and>
   get_video sample_world ''pub'' = Some sample_record \<and>
   map_of sample_record ''admin_key'' = Some (PStr ''adm'') \<and> ''adm'' \<noteq> ''wrong'' \<and>
   refresh_access_token sample_lib sample_env 5 ''0f'' ''http://h/'' sample_world ''pub'' ''wrong'' 60
     = (Inl (HTTPException 403 ''Invalid admin key!''), sample_world) \<and>
   delete_media sample_world ''pub'' ''wrong''
     = (Inl (HTTPException 403 ''Invalid admin key!''), sample_world) \<and>
   get_media_info sample_world ''pub'' ''wrong'' = Inl (HTTPException 403 ''Invalid admin key!'') \<and>
   extend_media_expiry sample_lib 5 sample_world ''pub'' ''wrong'' 60
     = (Inl (HTTPException 403 ''Invalid admin key!''), sample_world) \<and>
   snd (delete_media sample_world ''pub'' ''adm'') \<noteq> sample_world \<and>
   (\<exists>md'. get_video sample_world ''pub'' = Some md' \<and>
          map_of md' ''admin_key'' = Some (PStr ''adm''))"
proof -
  have a: "get_video sample_world ''nope'' = None" by (simp add: get_sample)
  have b: "in_bounds 60" by (simp add: in_bounds_def)
  have c: "get_video sample_world ''pub'' = Some sample_record" by (simp add: get_sample)
  have d: "map_of sample_record ''admin_key'' = Some (PStr ''adm'')"
    by (simp add: sample_record_def)
  have e: "''adm'' \<noteq> ''wrong''" by simp
  have ld: "load_database sample_world = [(''pub'', sample_record)]"
    by (simp add: load_database_def sample_world_def)
  have i: "map_of sample_record ''internal_id'' = Some (PStr ''int'')" "sample_record \<noteq> []"
    by (simp_all add: sample_record_def)
  have "load_database (snd (delete_media sample_world ''pub'' ''adm'')) = []"
    by (simp add: delete_media_def c d i ld Let_def AList.delete_eq)
  moreover have "load_database sample_world \<noteq> []"
    by (simp add: load_database_def sample_world_def)
  ultimately have f: "snd (delete_media sample_world ''pub'' ''adm'') \<noteq> sample_world"
    by auto
  note absent = admin_gate[where w = sample_world and mid = "''nope''" and m = 60 and n = 60
      and L = sample_lib and E = sample_env and now = 5 and jti = "''0f''"
      and url = "''http://h/''" and ak = "''adm''"]
  note wrong = admin_gate[where w = sample_world and mid = "''pub''" and m = 60 and n = 60
      and L = sample_lib and E = sample_env and now = 5 and jti = "''0f''"
      and url = "''http://h/''" and ak = "''wrong''" and md = sample_record
      and stored = "''adm''"]
  note right = admin_gate[where w = sample_world and mid = "''pub''" and m = 60 and n = 60
      and L = sample_lib and E = sample_env and now = 5 and jti = "''0f''"
      and url = "''http://h/''" and ak = "''adm''"]
  from absent wrong right a b c d e f show ?thesis by blast
qed

section \<open>Stored expiry and issued tokens\<close>

text \<open>
  The content requests read the files, the working directory and, of the record, whether
  it is empty, its access key and its internal identity.
\<close>

lemma gate_same:
  assumes "cwd w' = cwd w" and "files w' = files w"
    and "rel_option (\<lambda>a b. (a = [] \<longleftrightarrow> b = []) \<and>
            map_of a ''access_key'' = map_of b ''access_key'' \<and>
            map_of a ''internal_id'' = map_of b ''internal_id'')
          (get_video w mid) (get_video w' mid)"
  shows "get_playlist L E now w' mid tok = get_playlist L E now w mid tok"
    and "get_segment L E now w' mid name tok = get_segment L E now w mid name tok"
proof -
  show "get_playlist L E now w' mid tok = get_playlist L E now w mid tok"
  proof (cases "get_video w mid")
    case None
    with assms(3) have "get_video w' mid = None" by (cases "get_video w' mid") auto
    with None show ?thesis by (simp add: get_playlist_def)
  next
    case (Some a)
    with assms(3) obtain b where b: "get_video w' mid = Some b" "a = [] \<longleftrightarrow> b = []"
      "map_of a ''access_key'' = map_of b ''access_key''"
      "map_of a ''internal_id'' = map_of b ''internal_id''"
      by (cases "get_video w' mid") auto
    have p: "path_exists w' = path_exists w"
      using assms(1,2) by (simp add: path_exists_def fun_eq_iff)
    have r: "rewrite_playlist_with_auth_urls w' = rewrite_playlist_with_auth_urls w"
      using assms(1,2) by (simp add: rewrite_playlist_with_auth_urls_def fun_eq_iff)
    have s: "str_field b ''internal_id'' = str_field a ''internal_id''"
      using b(4) by (simp add: str_field_def)
    show ?thesis
      unfolding get_playlist_def Some b(1) option.case p r s b(2) b(3) ..
  qed
  show "get_segment L E now w' mid name tok = get_segment L E now w mid name tok"
  proof (cases "get_video w mid")
    case None
    with assms(3) have "get_video w' mid = None" by (cases "get_video w' mid") auto
    with None show ?thesis by (simp add: get_segment_def)
  next
    case (Some a)
    with assms(3) obtain b where b: "get_video w' mid = Some b" "a = [] \<longleftrightarrow> b = []"
      "map_of a ''access_key'' = map_of b ''access_key''"
      "map_of a ''internal_id'' = map_of b ''internal_id''"
      by (cases "get_video w' mid") auto
    have p: "path_exists w' = path_exists w"
      using assms(1,2) by (simp add: path_exists_def fun_eq_iff)
    have s: "str_field b ''internal_id'' = str_field a ''internal_id''"
      using b(4) by (simp add: str_field_def)
    show ?thesis
      unfolding get_segment_def Some b(1) option.case p s b(2) b(3) assms(1) ..
  qed
qed

lemma rel_option_refl_gate:
  "rel_option (\<lambda>a b. (a = [] \<longleftrightarrow> b = []) \<and>
            map_of a ''access_key'' = map_of b ''access_key'' \<and>
            map_of a ''internal_id'' = map_of b ''internal_id'') x x"
  by (cases x) auto

lemma gate_after_update:
  assumes g: "get_video w m = Some md" and ne: "md \<noteq> []"
    and v: "v \<noteq> []" "map_of v ''access_key'' = map_of md ''access_key''"
      "map_of v ''internal_id'' = map_of md ''internal_id''"
  shows "rel_option (\<lambda>a b. (a = [] \<longleftrightarrow> b = []) \<and>
            map_of a ''access_key'' = map_of b ''access_key'' \<and>
            map_of a ''internal_id'' = map_of b ''internal_id'')
          (get_video w mid) (get_video (snd (update_video L t w m v)) mid)"
proof (cases "mid = m")
  case True
  then show ?thesis
    using g ne v by (simp add: update_video_snd[OF g] get_video_save update_conv')
next
  case False
  have "get_video (snd (update_video L t w m v)) mid = get_video w mid"
    using False by (simp add: update_video_snd[OF g] get_video_save update_conv')
       (simp add: get_video_def)
  then show ?thesis by (simp add: rel_option_refl_gate)
qed

lemma update_video_files:
  "cwd (snd (update_video L t w m v)) = cwd w" "files (snd (update_video L t w m v)) = files w"
  by (simp_all add: update_video_def Let_def)

lemma extend_keeps:
  "cwd (snd (extend_media_expiry L t w m ak n)) = cwd w \<and>
   files (snd (extend_media_expiry L t w m ak n)) = files w \<and>
   rel_option (\<lambda>a b. (a = [] \<longleftrightarrow> b = []) \<and>
            map_of a ''access_key'' = map_of b ''access_key'' \<and>
            map_of a ''internal_id'' = map_of b ''internal_id'')
     (get_video w mid) (get_video (snd (extend_media_expiry L t w m ak n)) mid)"
  by (auto simp: extend_media_expiry_def Let_def update_video_files rel_option_refl_gate
      update_conv' intro!: gate_after_update split: option.splits if_splits)

lemma refresh_keeps:
  "cwd (snd (refresh_access_token L E t jti url w m ak n)) = cwd w \<and>
   files (snd (refresh_access_token L E t jti url w m ak n)) = files w \<and>
   rel_option (\<lambda>a b. (a = [] \<longleftrightarrow> b = []) \<and>
            map_of a ''access_key'' = map_of b ''access_key'' \<and>
            map_of a ''internal_id'' = map_of b ''internal_id'')
     (get_video w mid) (get_video (snd (refresh_access_token L E t jti url w m ak n)) mid)"
  by (auto simp: refresh_access_token_def Let_def update_video_files rel_option_refl_gate
      update_conv' intro!: gate_after_update split: option.splits if_splits sum.splits
      pyval.splits)

text \<open>
  C10. The stored expiry does not affect issued tokens. \<open>verify_access_token\<close> takes the
  token, the expected identity, the access key, the configuration and the time, and no
  store. For two states with the same files whose records differ at most in
  \<open>expiry_minutes\<close>, the playlist and segment requests answer alike for every token
  at every time; and they answer after an extend-expiry or a refresh-token call as they
  did before it, so changing the stored expiry neither prolongs nor ends an issued token.
\<close>

theorem stored_expiry_irrelevant:
  "(cwd w2 = cwd w1 \<and> files w2 = files w1 \<and>
    (\<forall>i. rel_option (\<lambda>a b. (a = [] \<longleftrightarrow> b = []) \<and>
                 (\<forall>k. k \<noteq> ''expiry_minutes'' \<longrightarrow> map_of a k = map_of b k))
            (get_video w1 i) (get_video w2 i)) \<longrightarrow>
      get_playlist L E now w2 mid tok = get_playlist L E now w1 mid tok \<and>
      get_segment L E now w2 mid name tok = get_segment L E now w1 mid name tok) \<and>
   get_playlist L E now (snd (extend_media_expiry L t w m ak n)) mid tok =
     get_playlist L E now w mid tok \<and>
   get_segment L E now (snd (extend_media_expiry L t w m ak n)) mid name tok =
     get_segment L E now w mid name tok \<and>
   get_playlist L E now (snd (refresh_access_token L E t jti url w m ak n)) mid tok =
     get_playlist L E now w mid tok \<and>
   get_segment L E now (snd (refresh_access_token L E t jti url w m ak n)) mid name tok =
     get_segment L E now w mid name tok"
proof (intro conjI impI)
  assume h: "cwd w2 = cwd w1 \<and> files w2 = files w1 \<and>
    (\<forall>i. rel_option (\<lambda>a b. (a = [] \<longleftrightarrow> b = []) \<and>
                 (\<forall>k. k \<noteq> ''expiry_minutes'' \<longrightarrow> map_of a k = map_of b k))
            (get_video w1 i) (get_video w2 i))"
  then have "rel_option (\<lambda>a b. (a = [] \<longleftrightarrow> b = []) \<and>
                 (\<forall>k. k \<noteq> ''expiry_minutes'' \<longrightarrow> map_of a k = map_of b k))
            (get_video w1 mid) (get_video w2 mid)" by blast
  then have r: "rel_option (\<lambda>a b. (a = [] \<longleftrightarrow> b = []) \<and>
            map_of a ''access_key'' = map_of b ''access_key'' \<and>
            map_of a ''internal_id'' = map_of b ''internal_id'')
          (get_video w1 mid) (get_video w2 mid)"
    by (rule option.rel_mono_strong) auto
  from h have c: "cwd w2 = cwd w1" and f: "files w2 = files w1" by simp_all
  show "get_playlist L E now w2 mid tok = get_playlist L E now w1 mid tok"
    by (rule gate_same(1)[OF c f r])
  show "get_segment L E now w2 mid name tok = get_segment L E now w1 mid name tok"
    by (rule gate_same(2)[OF c f r])
next
  show "get_playlist L E now (snd (extend_media_expiry L t w m ak n)) mid tok =
     get_playlist L E now w mid tok"
    using extend_keeps[of L t w m ak n mid] by (intro gate_same(1)) simp_all
  show "get_segment L E now (snd (extend_media_expiry L t w m ak n)) mid name tok =
     get_segment L E now w mid name tok"
    using extend_keeps[of L t w m ak n mid] by (intro gate_same(2)) simp_all
  show "get_playlist L E now (snd (refresh_access_token L E t jti url w m ak n)) mid tok =
     get_playlist L E now w mid tok"
    using refresh_keeps[of L E t jti url w m ak n mid] by (intro gate_same(1)) simp_all
  show "get_segment L E now (snd (refresh_access_token L E t jti url w m ak n)) mid name tok =
     get_segment L E now w mid name tok"
    using refresh_keeps[of L E t jti url w m ak n mid] by (intro gate_same(2)) simp_all
qed

theorem stored_expiry_irrelevant_witness:
  "cwd (sample_world\<lparr>db_file := Some (Document
          [(''pub'', AList.update ''expiry_minutes'' (PInt 5) sample_record)])\<rparr>)
     = cwd sample_world \<and>
   files (sample_world\<lparr>db_file := Some (Document
          [(''pub'', AList.update ''expiry_minutes'' (PInt 5) sample_record)])\<rparr>)
     = files sample_world \<and>
   (\<forall>i. rel_option (\<lambda>a b. (a = [] \<longleftrightarrow> b = []) \<and>
                 (\<forall>k. k \<noteq> ''expiry_minutes'' \<longrightarrow> map_of a k = map_of b k))
            (get_video sample_world i)
            (get_video (sample_world\<lparr>db_file := Some (Document
               [(''pub'', AList.update ''expiry_minutes'' (PInt 5) sample_record)])\<rparr>) i)) \<and>
   get_playlist sample_lib sample_env 1030000000
     (sample_world\<lparr>db_file := Some (Document
          [(''pub'', AList.update ''expiry_minutes'' (PInt 5) sample_record)])\<rparr>)
     ''pub'' sample_token
     = get_playlist sample_lib sample_env 1030000000 sample_world ''pub'' sample_token \<and>
   get_segment sample_lib sample_env 1030000000
     (sample_world\<lparr>db_file := Some (Document
          [(''pub'', AList.update ''expiry_minutes'' (PInt 5) sample_record)])\<rparr>)
     ''pub'' ''segment3.ts'' sample_token
     = get_segment sample_lib sample_env 1030000000 sample_world ''pub'' ''segment3.ts'' sample_token"
proof -
  let ?w2 = "sample_world\<lparr>db_file := Some (Document
          [(''pub'', AList.update ''expiry_minutes'' (PInt 5) sample_record)])\<rparr>"
  have c: "cwd ?w2 = cwd sample_world" and f: "files ?w2 = files sample_world" by simp_all
  have g2: "get_video ?w2 i =
      (if i = ''pub'' then Some (AList.update ''expiry_minutes'' (PInt 5) sample_record)
       else None)" for i
    by (simp add: get_video_def load_database_def)
  have r: "\<forall>i. rel_option (\<lambda>a b. (a = [] \<longleftrightarrow> b = []) \<and>
                 (\<forall>k. k \<noteq> ''expiry_minutes'' \<longrightarrow> map_of a k = map_of b k))
            (get_video sample_world i) (get_video ?w2 i)"
    by (simp add: get_sample g2 update_conv') (simp add: sample_record_def)
  from stored_expiry_irrelevant[where ?w1.0 = sample_world and ?w2.0 = ?w2
      and L = sample_lib and E = sample_env and now = 1030000000 and mid = "''pub''"
      and tok = sample_token and name = "''segment3.ts''"] c f r
  show ?thesis by blast
qed

lemma sample_token_ok: "verify_access_token sample_lib sample_env 1030000000 sample_token ''pub'' ''key''"
proof -
  have "sample_token = Compact \<lparr>header = jose_header sample_env,
                     payload = access_payload sample_lib 1000900000 ''0f'' ''pub'' ''key'' 60,
                     signature = hmac_sign sample_lib (ALGORITHM sample_env)
                       (generate_signing_key sample_lib (SECRET_KEY sample_env) ''key'')
                       (jose_header sample_env,
                        access_payload sample_lib 1000900000 ''0f'' ''pub'' ''key'' 60)\<rparr>"
    by (simp add: sample_token_def create_access_token_Inr[OF sample_env_hmac])
  then show ?thesis
    using verify_fresh[OF sample_env_hmac, of 1000900000 1030000000 60 sample_lib "''0f''" "''pub''" "''key''"]
    by simp
qed

section \<open>Segment path safety\<close>

lemma get_segment_served:
  assumes "get_segment L E now w mid name tok = Inr r"
  shows "suffix ''.ts'' name \<and> CHR ''/'' \<notin> set name \<and> \<not> sublist ''..'' name \<and>
      (\<exists>md iid p. get_video w mid = Some md \<and> map_of md ''internal_id'' = Some (PStr iid) \<and>
         r = FileResponse p ''video/MP2T'' \<and>
         prefix (abspath (cwd w) (path_join HLS_ROOT iid) @ ''/'') p \<and> path_exists w p)"
  using assms
  by (auto simp: get_segment_def str_field_def Let_def
      split: option.splits if_splits sum.splits pyval.splits)

text \<open>
  C4. Segment path safety. Once the record is found and the token accepted, a name that
  does not end in \<open>.ts\<close>, holds a slash or holds \<open>..\<close> is answered with 400; a name
  that passes is answered with 400 unless the canonical path starts with the canonical
  storage directory of the resource followed by a slash, with 404 when nothing exists at
  the canonical path, and is served otherwise. Whatever the request, a segment that is
  served has a name that passed the three checks, and its canonical path lies inside the
  storage directory and exists. The names \<open>../secret.ts\<close>, \<open>a/b.ts\<close> and \<open>x.mp4\<close> are
  never served.
\<close>

theorem segment_path_safety:
  "(get_video w mid = Some md \<and> md \<noteq> [] \<and> map_of md ''access_key'' = Some key \<and>
    token_accepted L E now tok mid key \<longrightarrow>
      ((\<not> suffix ''.ts'' name \<or> CHR ''/'' \<in> set name \<or> sublist ''..'' name) \<longrightarrow>
         get_segment L E now w mid name tok = Inl (HTTPException 400 ''Invalid segment name!'')) \<and>
      (suffix ''.ts'' name \<and> CHR ''/'' \<notin> set name \<and> \<not> sublist ''..'' name \<and>
       map_of md ''internal_id'' = Some (PStr iid) \<longrightarrow>
         get_segment L E now w mid name tok =
           (let p = abspath (cwd w) (normpath (path_join (path_join HLS_ROOT iid) name))
            in if \<not> prefix (abspath (cwd w) (path_join HLS_ROOT iid) @ ''/'') p
               then Inl (HTTPException 400 ''Invalid segment path!'')
               else if \<not> path_exists w p then Inl (HTTPException 404 ''Segment not found'')
               else Inr (FileResponse p ''video/MP2T'')))) \<and>
   (get_segment L E now w mid name tok = Inr r \<longrightarrow>
      suffix ''.ts'' name \<and> CHR ''/'' \<notin> set name \<and> \<not> sublist ''..'' name \<and>
      (\<exists>md iid p. get_video w mid = Some md \<and> map_of md ''internal_id'' = Some (PStr iid) \<and>
         r = FileResponse p ''video/MP2T'' \<and>
         prefix (abspath (cwd w) (path_join HLS_ROOT iid) @ ''/'') p \<and> path_exists w p)) \<and>
   get_segment L E now w mid ''../secret.ts'' tok \<noteq> Inr r \<and>
   get_segment L E now w mid ''a/b.ts'' tok \<noteq> Inr r \<and>
   get_segment L E now w mid ''x.mp4'' tok \<noteq> Inr r"
proof (intro conjI impI)
  assume h: "get_video w mid = Some md \<and> md \<noteq> [] \<and> map_of md ''access_key'' = Some key \<and>
    token_accepted L E now tok mid key"
  {
    assume "\<not> suffix ''.ts'' name \<or> CHR ''/'' \<in> set name \<or> sublist ''..'' name"
    with h show "get_segment L E now w mid name tok =
        Inl (HTTPException 400 ''Invalid segment name!'')"
      by (auto simp: get_segment_def)
  }
  {
    assume "suffix ''.ts'' name \<and> CHR ''/'' \<notin> set name \<and> \<not> sublist ''..'' name \<and>
       map_of md ''internal_id'' = Some (PStr iid)"
    with h show "get_segment L E now w mid name tok =
           (let p = abspath (cwd w) (normpath (path_join (path_join HLS_ROOT iid) name))
            in if \<not> prefix (abspath (cwd w) (path_join HLS_ROOT iid) @ ''/'') p
               then Inl (HTTPException 400 ''Invalid segment path!'')
               else if \<not> path_exists w p then Inl (HTTPException 404 ''Segment not found'')
               else Inr (FileResponse p ''video/MP2T''))"
      by (simp add: get_segment_def str_field_def Let_def)
  }
next
  assume "get_segment L E now w mid name tok = Inr r"
  from get_segment_served[OF this]
  show "suffix ''.ts'' name" "CHR ''/'' \<notin> set name" "\<not> sublist ''..'' name"
    "\<exists>md iid p. get_video w mid = Some md \<and> map_of md ''internal_id'' = Some (PStr iid) \<and>
         r = FileResponse p ''video/MP2T'' \<and>
         prefix (abspath (cwd w) (path_join HLS_ROOT iid) @ ''/'') p \<and> path_exists w p"
    by blast+
next
  have "sublist ''..'' ''../secret.ts''" by code_simp
  then show "get_segment L E now w mid ''../secret.ts'' tok \<noteq> Inr r"
    using get_segment_served[of L E now w mid "''../secret.ts''" tok r] by blast
  show "get_segment L E now w mid ''a/b.ts'' tok \<noteq> Inr r"
    using get_segment_served[of L E now w mid "''a/b.ts''" tok r] by auto
  have "\<not> suffix ''.ts'' ''x.mp4''" by code_simp
  then show "get_segment L E now w mid ''x.mp4'' tok \<noteq> Inr r"
    using get_segment_served[of L E now w mid "''x.mp4''" tok r] by blast
qed

theorem segment_path_safety_witness:
  "get_video sample_world ''pub'' = Some sample_record \<and> sample_record \<noteq> [] \<and>
   map_of sample_record ''access_key'' = Some (PStr ''key'') \<and>
   token_accepted sample_lib sample_env 1030000000 sample_token ''pub'' (PStr ''key'') \<and>
   sublist ''..'' ''../secret.ts'' \<and>
   get_segment sample_lib sample_env 1030000000 sample_world ''pub'' ''../secret.ts'' sample_token
     = Inl (HTTPException 400 ''Invalid segment name!'') \<and>
   CHR ''/'' \<in> set ''a/b.ts'' \<and>
   get_segment sample_lib sample_env 1030000000 sample_world ''pub'' ''a/b.ts'' sample_token
     = Inl (HTTPException 400 ''Invalid segment name!'') \<and>
   \<not> suffix ''.ts'' ''x.mp4'' \<and>
   get_segment sample_lib sample_env 1030000000 sample_world ''pub'' ''x.mp4'' sample_token
     = Inl (HTTPException 400 ''Invalid segment name!'') \<and>
   suffix ''.ts'' ''segment3.ts'' \<and> CHR ''/'' \<notin> set ''segment3.ts'' \<and>
   \<not> sublist ''..'' ''segment3.ts'' \<and>
   map_of sample_record ''internal_id'' = Some (PStr ''int'') \<and>
   get_segment sample_lib sample_env 1030000000 sample_world ''pub'' ''segment3.ts'' sample_token
     = Inr (FileResponse ''/srv/media/hls/int/segment3.ts'' ''video/MP2T'') \<and>
   suffix ''.ts'' ''segment9.ts'' \<and> CHR ''/'' \<notin> set ''segment9.ts'' \<and>
   \<not> sublist ''..'' ''segment9.ts'' \<and>
   get_segment sample_lib sample_env 1030000000 sample_world ''pub'' ''segment9.ts'' sample_token
     = Inl (HTTPException 404 ''Segment not found'')"
proof -
  have g: "get_video sample_world ''pub'' = Some sample_record" by (simp add: get_sample)
  have sr: "sample_record \<noteq> []" "map_of sample_record ''access_key'' = Some (PStr ''key'')"
    "map_of sample_record ''internal_id'' = Some (PStr ''int'')"
    by (simp_all add: sample_record_def)
  have t: "token_accepted sample_lib sample_env 1030000000 sample_token ''pub'' (PStr ''key'')"
    by (simp add: token_accepted_def sample_token_ok)
  have n1: "sublist ''..'' ''../secret.ts''" by code_simp
  have n2: "CHR ''/'' \<in> set ''a/b.ts''" by simp
  have n3: "\<not> suffix ''.ts'' ''x.mp4''" by code_simp
  have n4: "suffix ''.ts'' ''segment3.ts''" "CHR ''/'' \<notin> set ''segment3.ts''"
    "\<not> sublist ''..'' ''segment3.ts''" by code_simp+
  have n5: "suffix ''.ts'' ''segment9.ts''" "CHR ''/'' \<notin> set ''segment9.ts''"
    "\<not> sublist ''..'' ''segment9.ts''" by code_simp+
  have c: "cwd sample_world = ''/srv''" by (simp add: sample_world_def)
  have d: "abspath ''/srv'' (path_join HLS_ROOT ''int'') = ''/srv/media/hls/int''" by code_simp
  have p3: "abspath ''/srv'' (normpath (path_join (path_join HLS_ROOT ''int'') ''segment3.ts''))
      = ''/srv/media/hls/int/segment3.ts''" by code_simp
  have p9: "abspath ''/srv'' (normpath (path_join (path_join HLS_ROOT ''int'') ''segment9.ts''))
      = ''/srv/media/hls/int/segment9.ts''" by code_simp
  have a3: "abspath ''/srv'' ''/srv/media/hls/int/segment3.ts'' = ''/srv/media/hls/int/segment3.ts''"
    by code_simp
  have a9: "abspath ''/srv'' ''/srv/media/hls/int/segment9.ts'' = ''/srv/media/hls/int/segment9.ts''"
    by code_simp
  have e3: "path_exists sample_world ''/srv/media/hls/int/segment3.ts''"
    by (simp add: path_exists_def c a3) (simp add: sample_world_def)
  have e9: "\<not> path_exists sample_world ''/srv/media/hls/int/segment9.ts''"
    by (simp add: path_exists_def c a9) (simp add: sample_world_def)
  note th = segment_path_safety[where L = sample_lib and E = sample_env and now = 1030000000
      and w = sample_world and mid = "''pub''" and md = sample_record and key = "PStr ''key''"
      and tok = sample_token and iid = "''int''"]
  have r1: "get_segment sample_lib sample_env 1030000000 sample_world ''pub'' ''../secret.ts''
      sample_token = Inl (HTTPException 400 ''Invalid segment name!'')"
    using th[where name = "''../secret.ts''"] g sr t n1 by blast
  have r2: "get_segment sample_lib sample_env 1030000000 sample_world ''pub'' ''a/b.ts''
      sample_token = Inl (HTTPException 400 ''Invalid segment name!'')"
    using th[where name = "''a/b.ts''"] g sr t n2 by blast
  have r3: "get_segment sample_lib sample_env 1030000000 sample_world ''pub'' ''x.mp4''
      sample_token = Inl (HTTPException 400 ''Invalid segment name!'')"
    using th[where name = "''x.mp4''"] g sr t n3 by blast
  have "get_segment sample_lib sample_env 1030000000 sample_world ''pub'' ''segment3.ts'' sample_token
      = (let p = abspath (cwd sample_world)
                   (normpath (path_join (path_join HLS_ROOT ''int'') ''segment3.ts''))
         in if \<not> prefix (abspath (cwd sample_world) (path_join HLS_ROOT ''int'') @ ''/'') p
            then Inl (HTTPException 400 ''Invalid segment path!'')
            else if \<not> path_exists sample_world p
            then Inl (HTTPException 404 ''Segment not found'')
            else Inr (FileResponse p ''video/MP2T''))"
    using th[where name = "''segment3.ts''"] g sr t n4 by blast
  then have r4: "get_segment sample_lib sample_env 1030000000 sample_world ''pub'' ''segment3.ts''
      sample_token = Inr (FileResponse ''/srv/media/hls/int/segment3.ts'' ''video/MP2T'')"
    by (simp add: c d p3 e3)
  have "get_segment sample_lib sample_env 1030000000 sample_world ''pub'' ''segment9.ts'' sample_token
      = (let p = abspath (cwd sample_world)
                   (normpath (path_join (path_join HLS_ROOT ''int'') ''segment9.ts''))
         in if \<not> prefix (abspath (cwd sample_world) (path_join HLS_ROOT ''int'') @ ''/'') p
            then Inl (HTTPException 400 ''Invalid segment path!'')
            else if \<not> path_exists sample_world p
            then Inl (HTTPException 404 ''Segment not found'')
            else Inr (FileResponse p ''video/MP2T''))"
    using th[where name = "''segment9.ts''"] g sr t n5 by blast
  then have r5: "get_segment sample_lib sample_env 1030000000 sample_world ''pub'' ''segment9.ts''
      sample_token = Inl (HTTPException 404 ''Segment not found'')"
    by (simp add: c d p9 e9)
  from g sr t n1 n2 n3 n4 n5 r1 r2 r3 r4 r5 show ?thesis by simp
qed

section \<open>Upload and the encoder\<close>

lemma cwd_ops [simp]:
  "cwd (makedirs w p) = cwd w" "cwd (write_file w p c) = cwd w" "cwd (remove w p) = cwd w"
  "cwd (rmtree w p) = cwd w"
  by (simp_all add: makedirs_def write_file_def remove_def rmtree_def)

lemma db_ops [simp]:
  "db_file (makedirs w p) = db_file w" "db_file (write_file w p c) = db_file w"
  "db_file (remove w p) = db_file w" "db_file (rmtree w p) = db_file w"
  "backup_file (makedirs w p) = backup_file w" "backup_file (write_file w p c) = backup_file w"
  "backup_file (remove w p) = backup_file w" "backup_file (rmtree w p) = backup_file w"
  by (simp_all add: makedirs_def write_file_def remove_def rmtree_def)

lemma write_outputs_keeps [simp]:
  "cwd (write_outputs w d outs) = cwd w" "db_file (write_outputs w d outs) = db_file w"
  "backup_file (write_outputs w d outs) = backup_file w"
  by (induction w d outs rule: write_outputs.induct) simp_all

lemma generate_hls_keeps [simp]:
  "cwd (snd (generate_hls enc w v d)) = cwd w"
  "db_file (snd (generate_hls enc w v d)) = db_file w"
  "backup_file (snd (generate_hls enc w v d)) = backup_file w"
  by (simp_all add: generate_hls_def Let_def split: encoder.splits)

lemma generate_hls_fst:
  "fst (generate_hls enc w v d) =
     (if encoder_fails enc then Inl (encoder_message enc)
      else Inr (path_join d ''playlist.m3u8''))"
  by (simp add: generate_hls_def encoder_fails_def encoder_message_def Let_def
      split: encoder.splits)

lemma removed_gone:
  "\<not> path_exists (if path_exists w p then remove w p else w) p"
  by (simp add: path_exists_def remove_def)

lemma rmtree_below:
  "below (abspath (cwd w) d) p \<Longrightarrow> files (rmtree w d) p = None"
  by (simp add: rmtree_def)

lemma remove_keeps_none: "files w p = None \<Longrightarrow> files (remove w q) p = None"
  by (simp add: remove_def)

lemma store_video_files [simp]:
  "files (store_video L now w i v) = files w" "cwd (store_video L now w i v) = cwd w"
  by (simp_all add: store_video_def Let_def)

lemma path_exists_cong: "files w' = files w \<Longrightarrow> cwd w' = cwd w \<Longrightarrow> path_exists w' = path_exists w"
  by (simp add: path_exists_def fun_eq_iff)

text \<open>
  C9. Upload cleanup. With the expiry inside its bounds: when the encoder fails, the
  answer is 500 with the encoder's message, nothing is left at or below the output
  directory, the two files of the store are as they were (no record is stored), and the
  uploaded file is gone; and whether the encoder fails or not, the uploaded file is gone
  when the request ends.
\<close>

theorem upload_cleanup:
  "in_bounds m \<longrightarrow>
     (encoder_fails enc \<longrightarrow>
        (\<exists>w'. upload_media L E now url enc w media m iid pid key ak jti =
                 (Inl (HTTPException 500 (''Encoding failed: '' @ encoder_message enc @ ''!'')), w') \<and>
              (\<forall>p. below (abspath (cwd w) (path_join HLS_ROOT iid)) p \<longrightarrow> files w' p = None) \<and>
              \<not> path_exists w' (path_join HLS_ROOT iid) \<and>
              db_file w' = db_file w \<and> backup_file w' = backup_file w \<and>
              load_database w' = load_database w)) \<and>
     \<not> path_exists (snd (upload_media L E now url enc w media m iid pid key ak jti))
         (path_join HLS_ROOT (iid @ ''.mp4''))"
proof (intro impI conjI)
  assume b: "in_bounds m"
  let ?media_path = "path_join HLS_ROOT (iid @ ''.mp4'')"
  let ?hls_dir = "path_join HLS_ROOT iid"
  let ?w2 = "write_file (makedirs w ?hls_dir) ?media_path media"
  let ?g = "generate_hls enc ?w2 ?media_path ?hls_dir"
  let ?w4 = "rmtree (snd ?g) ?hls_dir"
  let ?w5 = "if path_exists ?w4 ?media_path then remove ?w4 ?media_path else ?w4"
  obtain r w3 where g: "?g = (r, w3)" by (cases ?g)
  have w3: "w3 = snd ?g" and r: "r = fst ?g" using g by simp_all
  {
    assume f: "encoder_fails enc"
    then have r': "r = Inl (encoder_message enc)" by (simp add: r generate_hls_fst)
    have u: "upload_media L E now url enc w media m iid pid key ak jti =
        (Inl (HTTPException 500 (''Encoding failed: '' @ encoder_message enc @ ''!'')), ?w5)"
      using b by (simp add: upload_media_def Let_def g r')
    have c5: "cwd ?w5 = cwd w" by simp
    have below_none: "files ?w5 p = None" if "below (abspath (cwd w) ?hls_dir) p" for p
    proof -
      have "files ?w4 p = None" using that by (simp add: rmtree_below)
      then show ?thesis by (simp add: remove_keeps_none)
    qed
    have "below (abspath (cwd w) ?hls_dir) (abspath (cwd w) ?hls_dir)" by (simp add: below_def)
    then have gone: "\<not> path_exists ?w5 ?hls_dir"
      using below_none[of "abspath (cwd w) ?hls_dir"] c5 by (simp add: path_exists_def)
    have d: "db_file ?w5 = db_file w" "backup_file ?w5 = backup_file w" by simp_all
    then have l: "load_database ?w5 = load_database w" by (simp add: load_database_def)
    from u below_none gone d l
    show "\<exists>w'. upload_media L E now url enc w media m iid pid key ak jti =
                 (Inl (HTTPException 500 (''Encoding failed: '' @ encoder_message enc @ ''!'')), w') \<and>
              (\<forall>p. below (abspath (cwd w) (path_join HLS_ROOT iid)) p \<longrightarrow> files w' p = None) \<and>
              \<not> path_exists w' (path_join HLS_ROOT iid) \<and>
              db_file w' = db_file w \<and> backup_file w' = backup_file w \<and>
              load_database w' = load_database w"
      by blast
  }
  show "\<not> path_exists (snd (upload_media L E now url enc w media m iid pid key ak jti)) ?media_path"
  proof (cases r)
    case (Inl e)
    then have "snd (upload_media L E now url enc w media m iid pid key ak jti) = ?w5"
      using b by (simp add: upload_media_def Let_def g)
    then show ?thesis using removed_gone[of ?w4 ?media_path] by simp
  next
    case (Inr pp)
    let ?v4 = "if path_exists w3 ?media_path then remove w3 ?media_path else w3"
    have "\<exists>d. snd (upload_media L E now url enc w media m iid pid key ak jti) =
        store_video L now ?v4 pid d"
      using b Inr by (auto simp: upload_media_def Let_def g split: sum.splits)
    then obtain d where s: "snd (upload_media L E now url enc w media m iid pid key ak jti) =
        store_video L now ?v4 pid d" by blast
    have "path_exists (store_video L now ?v4 pid d) = path_exists ?v4"
      by (rule path_exists_cong) simp_all
    then show ?thesis using removed_gone[of w3 ?media_path] s by simp
  qed
qed

theorem upload_cleanup_witness:
  "in_bounds 60 \<and> encoder_fails (Exits 1 ''boom'' [(''segment0.ts'', ''x'')]) \<and>
   (\<exists>w'. upload_media sample_lib sample_env 5 ''http://h/''
            (Exits 1 ''boom'' [(''segment0.ts'', ''x'')]) sample_world ''bytes'' 60
            ''new'' ''p2'' ''k2'' ''a2'' ''0f''
          = (Inl (HTTPException 500 ''Encoding failed: FFmpeg error: boom!''), w') \<and>
        files w' ''/srv/media/hls/new/segment0.ts'' = None \<and>
        \<not> path_exists w' ''media/hls/new'' \<and>
        load_database w' = load_database sample_world \<and>
        \<not> path_exists w' ''media/hls/new.mp4'') \<and>
   \<not> path_exists
       (snd (upload_media sample_lib sample_env 5 ''http://h/''
               (Exits 0 [] [(''playlist.m3u8'', ''segment0.ts''), (''segment0.ts'', ''x'')])
               sample_world ''bytes'' 60 ''new'' ''p2'' ''k2'' ''a2'' ''0f''))
       ''media/hls/new.mp4''"
proof -
  have b: "in_bounds 60" by (simp add: in_bounds_def)
  have f: "encoder_fails (Exits 1 ''boom'' [(''segment0.ts'', ''x'')])"
    by (simp add: encoder_fails_def)
  have m: "encoder_message (Exits 1 ''boom'' [(''segment0.ts'', ''x'')]) = ''FFmpeg error: boom''"
    by (simp add: encoder_message_def)
  have j: "path_join HLS_ROOT ''new'' = ''media/hls/new''"
    "path_join HLS_ROOT ''new.mp4'' = ''media/hls/new.mp4''" by code_simp+
  have c: "cwd sample_world = ''/srv''" by (simp add: sample_world_def)
  have bl: "below (abspath ''/srv'' ''media/hls/new'') ''/srv/media/hls/new/segment0.ts''"
    by code_simp
  note fail = upload_cleanup[where L = sample_lib and E = sample_env and now = 5
      and url = "''http://h/''" and enc = "Exits 1 ''boom'' [(''segment0.ts'', ''x'')]"
      and w = sample_world and media = "''bytes''" and m = 60 and iid = "''new''"
      and pid = "''p2''" and key = "''k2''" and ak = "''a2''" and jti = "''0f''"]
  note good = upload_cleanup[where L = sample_lib and E = sample_env and now = 5
      and url = "''http://h/''"
      and enc = "Exits 0 [] [(''playlist.m3u8'', ''segment0.ts''), (''segment0.ts'', ''x'')]"
      and w = sample_world and media = "''bytes''" and m = 60 and iid = "''new''"
      and pid = "''p2''" and key = "''k2''" and ak = "''a2''" and jti = "''0f''"]
  from fail b f obtain w' where
    u: "upload_media sample_lib sample_env 5 ''http://h/''
            (Exits 1 ''boom'' [(''segment0.ts'', ''x'')]) sample_world ''bytes'' 60
            ''new'' ''p2'' ''k2'' ''a2'' ''0f''
          = (Inl (HTTPException 500 (''Encoding failed: '' @
               encoder_message (Exits 1 ''boom'' [(''segment0.ts'', ''x'')]) @ ''!'')), w')" and
    n: "\<And>p. below (abspath (cwd sample_world) (path_join HLS_ROOT ''new'')) p \<Longrightarrow>
            files w' p = None" and
    g: "\<not> path_exists w' (path_join HLS_ROOT ''new'')" and
    l: "load_database w' = load_database sample_world"
    by blast
  from fail b have "\<not> path_exists
       (snd (upload_media sample_lib sample_env 5 ''http://h/''
               (Exits 1 ''boom'' [(''segment0.ts'', ''x'')])
               sample_world ''bytes'' 60 ''new'' ''p2'' ''k2'' ''a2'' ''0f''))
       (path_join HLS_ROOT (''new'' @ ''.mp4''))" by blast
  then have r: "\<not> path_exists w' ''media/hls/new.mp4''" by (simp add: u j)
  from good b have s: "\<not> path_exists
       (snd (upload_media sample_lib sample_env 5 ''http://h/''
               (Exits 0 [] [(''playlist.m3u8'', ''segment0.ts''), (''segment0.ts'', ''x'')])
               sample_world ''bytes'' 60 ''new'' ''p2'' ''k2'' ''a2'' ''0f''))
       ''media/hls/new.mp4''" by (simp add: j)
  have n': "files w' ''/srv/media/hls/new/segment0.ts'' = None"
    using n[of "''/srv/media/hls/new/segment0.ts''"] bl by (simp add: c j)
  from u have u': "upload_media sample_lib sample_env 5 ''http://h/''
            (Exits 1 ''boom'' [(''segment0.ts'', ''x'')]) sample_world ''bytes'' 60
            ''new'' ''p2'' ''k2'' ''a2'' ''0f''
          = (Inl (HTTPException 500 ''Encoding failed: FFmpeg error: boom!''), w')"
    by (simp add: m)
  from g have g': "\<not> path_exists w' ''media/hls/new''" by (simp add: j)
  from b f u' n' g' l r s show ?thesis by blast
qed

section \<open>Interrupted writes of the store\<close>

text \<open>
  C5 as stated fails. When the process is stopped after the rename and before the new
  file is complete (or an exception that is no \<open>Exception\<close>, such as
  \<open>KeyboardInterrupt\<close>, passes the handler), the store's file is missing or unreadable,
  and the next load answers the empty mapping: neither the old nor the new one. Loading
  never looks at the backup.
\<close>

theorem crash_atomicity_counterexample:
  "load_database (fst (save_database_run sample_world sample_update (Killed After_rename)))
     \<noteq> load_database sample_world \<and>
   load_database (fst (save_database_run sample_world sample_update (Killed After_rename)))
     \<noteq> sample_update \<and>
   load_database (fst (save_database_run sample_world sample_update (Killed After_rename))) = []"
  by (simp add: save_database_run_def progress_def backup_current_def load_database_def
      sample_world_def sample_update_def sample_record_def)

text \<open>
  C5, amended. A run that finishes leaves the new mapping, and no backup. A run in which
  an exception is raised raises it again and leaves the old mapping when the store's
  file existed (the backup is renamed back); without a file and without a backup it
  leaves the old or the new mapping. A run stopped at a point leaves the old mapping
  before the rename, the new mapping after the write, and the empty mapping in between.
  A load never answers part of a document.
\<close>

theorem save_interrupted:
  "(load_database (fst (save_database_run w new Finished)) = new \<and>
    db_file (fst (save_database_run w new Finished)) = Some (Document new) \<and>
    backup_file (fst (save_database_run w new Finished)) = None \<and>
    snd (save_database_run w new Finished) = Returned) \<and>
   (db_file w \<noteq> None \<or> backup_file w = None \<longrightarrow>
      (load_database (fst (save_database_run w new (Raised p))) = load_database w \<or>
       load_database (fst (save_database_run w new (Raised p))) = new) \<and>
      snd (save_database_run w new (Raised p)) = Reraised) \<and>
   (db_file w \<noteq> None \<longrightarrow>
      load_database (fst (save_database_run w new (Raised p))) = load_database w \<and>
      db_file (fst (save_database_run w new (Raised p))) = db_file w \<and>
      (p \<noteq> Before_rename \<longrightarrow> backup_file (fst (save_database_run w new (Raised p))) = None)) \<and>
   load_database (fst (save_database_run w new (Killed p))) =
     (if p = Before_rename then load_database w else if p = After_write then new else []) \<and>
   snd (save_database_run w new (Killed p)) = Stopped"
  by (cases p)
    (auto simp: save_database_run_def progress_def backup_current_def restore_backup_def
      remove_backup_def load_database_def split: option.splits doc.splits)

theorem save_interrupted_witness:
  "(db_file sample_world \<noteq> None) \<and>
   load_database (fst (save_database_run sample_world sample_update (Raised Mid_write)))
     = load_database sample_world \<and>
   snd (save_database_run sample_world sample_update (Raised Mid_write)) = Reraised \<and>
   db_file (fst (save_database_run sample_world sample_update (Raised Mid_write)))
     = db_file sample_world \<and>
   Mid_write \<noteq> Before_rename \<and>
   backup_file (fst (save_database_run sample_world sample_update (Raised Mid_write))) = None \<and>
   load_database (fst (save_database_run sample_world sample_update Finished)) = sample_update \<and>
   load_database (fst (save_database_run sample_world sample_update (Killed After_write)))
     = sample_update \<and>
   load_database (fst (save_database_run sample_world sample_update (Killed Mid_write))) = []"
proof -
  have d: "db_file sample_world \<noteq> None" by (simp add: sample_world_def)
  have n: "Mid_write \<noteq> Before_rename" by simp
  note r = save_interrupted[where w = sample_world and new = sample_update and p = Mid_write]
  note k = save_interrupted[where w = sample_world and new = sample_update and p = After_write]
  from r k d n show ?thesis by simp
qed

section \<open>The manifest rewriter\<close>

lemma isspace_newline [simp]: "isspace newline"
  by (simp add: isspace_def newline_def)

lemma set_strip: "set (strip s) \<subseteq> set s"
proof -
  have "set (strip s) \<subseteq> set (rev (dropWhile isspace s))"
    unfolding strip_def using set_dropWhileD by fastforce
  also have "\<dots> \<subseteq> set s" using set_dropWhileD by fastforce
  finally show ?thesis .
qed

lemma strip_snoc_space:
  assumes "isspace c"
  shows "strip (xs @ [c]) = strip xs"
proof (cases "\<forall>x\<in>set xs. isspace x")
  case True
  then have a: "dropWhile isspace (xs @ [c]) = []" and b: "dropWhile isspace xs = []"
    using assms by (simp_all add: dropWhile_eq_Nil_conv)
  show ?thesis unfolding strip_def a b by simp
next
  case False
  then have a: "dropWhile isspace (xs @ [c]) = dropWhile isspace xs @ [c]"
    by (auto simp: dropWhile_append1)
  show ?thesis unfolding strip_def a using assms by simp
qed

lemma strip_no_newline:
  assumes "newline \<notin> set (butlast l)"
  shows "newline \<notin> set (strip l)"
proof (cases l rule: rev_cases)
  case Nil
  then show ?thesis by (simp add: strip_def)
next
  case (snoc xs c)
  show ?thesis
  proof (cases "c = newline")
    case True
    then have "strip l = strip xs" using snoc by (simp add: strip_snoc_space)
    then show ?thesis using assms snoc set_strip[of xs] by auto
  next
    case False
    then have "newline \<notin> set l" using assms snoc by simp
    then show ?thesis using set_strip[of l] by auto
  qed
qed

lemma strip_clean:
  assumes "b = [] \<or> (\<not> isspace (hd b) \<and> \<not> isspace (last b))"
  shows "strip (b @ [newline]) = b"
proof (cases "b = []")
  case True
  then show ?thesis by (simp add: strip_def)
next
  case False
  with assms have h: "\<not> isspace (hd b)" and l: "\<not> isspace (last b)" by simp_all
  from False h have "dropWhile isspace b = b" by (cases b) simp_all
  moreover from False l have "dropWhile isspace (rev b) = rev b"
    by (cases b rule: rev_cases) simp_all
  ultimately have "strip b = b" by (simp add: strip_def)
  moreover have "strip (b @ [newline]) = strip b" by (rule strip_snoc_space) simp
  ultimately show ?thesis by simp
qed

lemma split_on_not_Nil [simp]: "split_on c s \<noteq> []"
  by (induction s) (auto split: list.splits)

lemma set_split_on: "x \<in> set (split_on c s) \<Longrightarrow> set x \<subseteq> set s"
proof (induction s arbitrary: x)
  case Nil
  then show ?case by simp
next
  case (Cons a s)
  show ?case
  proof (cases "a = c")
    case True
    with Cons show ?thesis by auto
  next
    case False
    obtain y ys where y: "split_on c s = y # ys"
      using split_on_not_Nil[of c s] by (cases "split_on c s") auto
    with False Cons.prems have "x = a # y \<or> x \<in> set ys" by simp
    then show ?thesis using Cons.IH[of y] Cons.IH[of x] y by auto
  qed
qed

lemma set_last_split_on: "set (last (split_on c s)) \<subseteq> set s"
  using set_split_on[of "last (split_on c s)" c s] by simp

lemma keepends_line:
  "newline \<notin> set b \<Longrightarrow> keepends (b @ newline # rest) = (b @ [newline]) # keepends rest"
  by (induction b) auto

lemma keepends_concat:
  assumes "\<forall>l\<in>set ls. \<exists>b. l = b @ [newline] \<and> newline \<notin> set b"
  shows "keepends (concat ls) = ls"
  using assms
proof (induction ls)
  case Nil
  then show ?case by simp
next
  case (Cons l ls)
  then obtain b where b: "l = b @ [newline]" "newline \<notin> set b" by auto
  from Cons have "keepends (concat ls) = ls" by simp
  then show ?case using b keepends_line[OF b(2), of "concat ls"] by simp
qed

lemma keepends_butlast: "l \<in> set (keepends s) \<Longrightarrow> newline \<notin> set (butlast l)"
proof (induction s arbitrary: l)
  case Nil
  then show ?case by simp
next
  case (Cons a s)
  show ?case
  proof (cases "a = newline")
    case True
    with Cons show ?thesis by auto
  next
    case False
    show ?thesis
    proof (cases "keepends s")
      case Nil
      with False Cons.prems show ?thesis by simp
    next
      case (Cons y ys)
      with False Cons.prems have "l = a # y \<or> l \<in> set ys" by simp
      then show ?thesis
      proof
        assume "l = a # y"
        moreover have "newline \<notin> set (butlast y)" using Cons.IH[of y] Cons by simp
        ultimately show ?thesis using False by (cases y) auto
      next
        assume "l \<in> set ys"
        then show ?thesis using Cons.IH[of l] Cons by simp
      qed
    qed
  qed
qed

lemma prefix_across:
  assumes "c \<notin> set p"
  shows "prefix p (xs @ c # ys) \<longleftrightarrow> prefix p xs"
proof
  assume "prefix p (xs @ c # ys)"
  then consider "prefix p xs" | us where "p = xs @ us" "prefix us (c # ys)"
    by (auto simp: prefix_append)
  then show "prefix p xs"
  proof cases
    case 1
    then show ?thesis .
  next
    case 2
    with assms have "us = []" by (cases us) auto
    with 2 show ?thesis by simp
  qed
next
  assume "prefix p xs"
  then show "prefix p (xs @ c # ys)" by (rule prefix_prefix)
qed

lemma occurrences_across:
  assumes "c \<notin> set p" and "p \<noteq> []"
  shows "occurrences p (xs @ c # ys) = occurrences p xs + occurrences p ys"
proof (induction xs)
  case Nil
  from assms have "\<not> prefix p (c # ys)" by (cases p) auto
  then show ?case using assms by simp
next
  case (Cons x xs)
  have "prefix p ((x # xs) @ c # ys) \<longleftrightarrow> prefix p (x # xs)"
    by (rule prefix_across[OF assms(1)])
  then show ?case using Cons by simp
qed

lemma occurrences_end:
  assumes "c \<notin> set p" and "p \<noteq> []"
  shows "occurrences p (xs @ [c]) = occurrences p xs"
  using occurrences_across[OF assms, of xs "[]"] assms by simp

lemma occurrences_url:
  "occurrences ''token=''
     (''/stream/'' @ mid @ ''/'' @ fname @ ''?token='' @ tok @ [newline]) =
   1 + occurrences ''token='' mid + occurrences ''token='' fname + occurrences ''token='' tok"
proof -
  have n: "newline \<notin> set ''token=''" by (simp add: newline_def)
  have e: "occurrences ''token='' (tok @ [newline]) = occurrences ''token='' tok"
    by (rule occurrences_end[OF n]) simp
  have 1: "occurrences ''token='' (''token='' @ tok @ [newline]) = 1 + occurrences ''token='' tok"
    using e by simp
  have 2: "occurrences ''token='' (fname @ CHR ''?'' # (''token='' @ tok @ [newline]))
      = occurrences ''token='' fname + (1 + occurrences ''token='' tok)"
    unfolding 1[symmetric] by (rule occurrences_across) simp_all
  have 3: "occurrences ''token='' (mid @ CHR ''/'' # (fname @ CHR ''?'' # (''token='' @ tok @ [newline])))
      = occurrences ''token='' mid + (occurrences ''token='' fname + (1 + occurrences ''token='' tok))"
    unfolding 2[symmetric] by (rule occurrences_across) simp_all
  have 4: "occurrences ''token='' (''/stream'' @ CHR ''/'' #
        (mid @ CHR ''/'' # (fname @ CHR ''?'' # (''token='' @ tok @ [newline]))))
      = occurrences ''token='' ''/stream'' + (occurrences ''token='' mid +
          (occurrences ''token='' fname + (1 + occurrences ''token='' tok)))"
    unfolding 3[symmetric] by (rule occurrences_across) simp_all
  have 5: "occurrences ''token='' ''/stream'' = 0" by simp
  from 4 5 show ?thesis by simp
qed

lemma rewrite_line_shape:
  assumes "newline \<notin> set (butlast l)" "newline \<notin> set mid" "newline \<notin> set tok"
  shows "\<exists>b. rewrite_line mid tok l = b @ [newline] \<and> newline \<notin> set b"
proof -
  have s: "newline \<notin> set (strip l)" by (rule strip_no_newline[OF assms(1)])
  then have f: "newline \<notin> set (last (split_on CHR ''/'' (strip l)))"
    using set_last_split_on[of "CHR ''/''" "strip l"] by auto
  have n: "newline \<notin> set ''/stream/''" "newline \<notin> set ''?token=''" "newline \<noteq> CHR ''/''"
    by (simp_all add: newline_def)
  show ?thesis
  proof (cases "suffix ''.ts'' (strip l)")
    case True
    then have "rewrite_line mid tok l =
        (''/stream/'' @ mid @ ''/'' @ last (split_on CHR ''/'' (strip l)) @ ''?token='' @ tok)
          @ [newline]"
      by (simp add: rewrite_line_def Let_def)
    moreover have "newline \<notin> set (''/stream/'' @ mid @ ''/'' @
        last (split_on CHR ''/'' (strip l)) @ ''?token='' @ tok)"
      using assms(2,3) f n by (simp add: newline_def)
    ultimately show ?thesis by blast
  next
    case False
    then have "rewrite_line mid tok l = strip l @ [newline]"
      by (simp add: rewrite_line_def Let_def)
    with s show ?thesis by blast
  qed
qed

lemma keepends_rewritten:
  assumes "newline \<notin> set mid" "newline \<notin> set tok"
  shows "keepends (concat (rewrite_lines mid tok (keepends s))) = rewrite_lines mid tok (keepends s)"
proof (rule keepends_concat, rule ballI)
  fix l assume "l \<in> set (rewrite_lines mid tok (keepends s))"
  then obtain l0 where l0: "l0 \<in> set (keepends s)" "l = rewrite_line mid tok l0"
    by (auto simp: rewrite_lines_def)
  from keepends_butlast[OF l0(1)] assms
  show "\<exists>b. l = b @ [newline] \<and> newline \<notin> set b"
    unfolding l0(2) by (rule rewrite_line_shape)
qed

text \<open>
  C6 as stated fails. A line that references no chunk does not pass through unchanged up
  to its line ending: \<open>strip\<close> also removes its leading and trailing blanks. A chunk
  line whose file name holds \<open>token=\<close> gives a line with two \<open>token=\<close>. And a token
  with a line break in it gives two lines of output for one line of input.
\<close>

theorem manifest_rewrite_counterexample:
  "\<not> suffix ''.ts'' (strip ('' #EXTM3U\<newline>'')) \<and>
   rewrite_line ''id'' ''tok'' ('' #EXTM3U\<newline>'') = ''#EXTM3U\<newline>'' \<and>
   rewrite_line ''id'' ''tok'' ('' #EXTM3U\<newline>'') \<noteq> '' #EXTM3U\<newline>'' \<and>
   suffix ''.ts'' (strip (''a?token=b.ts\<newline>'')) \<and>
   rewrite_line ''id'' ''tok'' (''a?token=b.ts\<newline>'')
     = ''/stream/id/a?token=b.ts?token=tok\<newline>'' \<and>
   occurrences ''token='' (rewrite_line ''id'' ''tok'' (''a?token=b.ts\<newline>'')) = 2 \<and>
   length (readlines ''seg.ts'') = 1 \<and>
   length (keepends (concat (rewrite_lines ''id'' (''to\<newline>'' @ ''k'')
      (readlines ''seg.ts'')))) = 2"
  by code_simp

text \<open>
  C6, amended. The rewriter appends one line to its output for every line of the
  manifest, in the manifest's order. A line whose text, stripped of leading and trailing
  whitespace, ends in \<open>.ts\<close> becomes exactly
  \<open>/stream/{media_id}/{file name}?token={token}\<close> and a newline, the file name being
  what follows the last slash of the stripped line; \<open>token=\<close> occurs in it once, plus
  the times it occurs in the identity, in the file name and in the token. Every other
  line becomes its stripped text and a newline, so a line without leading and trailing
  whitespace passes through unchanged up to its line ending. When neither the identity nor
  the token holds a line break, the lines of the returned text are these lines.
\<close>

theorem manifest_rewrite:
  "length (rewrite_lines mid tok lines) = length lines \<and>
   (\<forall>i. i < length lines \<longrightarrow>
      rewrite_lines mid tok lines ! i = rewrite_line mid tok (lines ! i)) \<and>
   (suffix ''.ts'' (strip l) \<longrightarrow>
      rewrite_line mid tok l =
        ''/stream/'' @ mid @ ''/'' @ last (split_on CHR ''/'' (strip l)) @ ''?token='' @ tok
          @ [newline] \<and>
      occurrences ''token='' (rewrite_line mid tok l) =
        1 + occurrences ''token='' mid
          + occurrences ''token='' (last (split_on CHR ''/'' (strip l)))
          + occurrences ''token='' tok) \<and>
   (\<not> suffix ''.ts'' (strip l) \<longrightarrow> rewrite_line mid tok l = strip l @ [newline]) \<and>
   (b = [] \<or> (\<not> isspace (hd b) \<and> \<not> isspace (last b)) \<longrightarrow> strip (b @ [newline]) = b) \<and>
   (files w (abspath (cwd w) path) = Some (File content) \<and>
    newline \<notin> set mid \<and> newline \<notin> set tok \<longrightarrow>
      (\<exists>out. rewrite_playlist_with_auth_urls w path mid tok = Inr out \<and>
             keepends out = rewrite_lines mid tok (readlines content)))"
proof (intro conjI impI allI)
  show "length (rewrite_lines mid tok lines) = length lines"
    by (simp add: rewrite_lines_def)
next
  fix i assume "i < length lines"
  then show "rewrite_lines mid tok lines ! i = rewrite_line mid tok (lines ! i)"
    by (simp add: rewrite_lines_def)
next
  assume c: "suffix ''.ts'' (strip l)"
  then show r: "rewrite_line mid tok l =
        ''/stream/'' @ mid @ ''/'' @ last (split_on CHR ''/'' (strip l)) @ ''?token='' @ tok
          @ [newline]"
    by (simp add: rewrite_line_def Let_def)
  show "occurrences ''token='' (rewrite_line mid tok l) =
        1 + occurrences ''token='' mid
          + occurrences ''token='' (last (split_on CHR ''/'' (strip l)))
          + occurrences ''token='' tok"
    unfolding r by (rule occurrences_url)
next
  assume "\<not> suffix ''.ts'' (strip l)"
  then show "rewrite_line mid tok l = strip l @ [newline]"
    by (simp add: rewrite_line_def Let_def)
next
  assume "b = [] \<or> (\<not> isspace (hd b) \<and> \<not> isspace (last b))"
  then show "strip (b @ [newline]) = b" by (rule strip_clean)
next
  assume h: "files w (abspath (cwd w) path) = Some (File content) \<and>
    newline \<notin> set mid \<and> newline \<notin> set tok"
  then have "rewrite_playlist_with_auth_urls w path mid tok =
      Inr (concat (rewrite_lines mid tok (readlines content)))"
    by (simp add: rewrite_playlist_with_auth_urls_def)
  moreover have "keepends (concat (rewrite_lines mid tok (readlines content))) =
      rewrite_lines mid tok (readlines content)"
    unfolding readlines_def using h by (intro keepends_rewritten) simp_all
  ultimately show "\<exists>out. rewrite_playlist_with_auth_urls w path mid tok = Inr out \<and>
             keepends out = rewrite_lines mid tok (readlines content)"
    by blast
qed

theorem manifest_rewrite_witness:
  "(1::nat) < length [''#EXTM3U\<newline>'', ''segment0.ts\<newline>''] \<and>
   rewrite_lines ''pub'' ''T'' [''#EXTM3U\<newline>'', ''segment0.ts\<newline>''] ! 1
     = rewrite_line ''pub'' ''T''
         ([''#EXTM3U\<newline>'', ''segment0.ts\<newline>''] ! 1) \<and>
   suffix ''.ts'' (strip (''hls/segment0.ts\<newline>'')) \<and>
   rewrite_line ''pub'' ''T'' (''hls/segment0.ts\<newline>'')
     = ''/stream/pub/segment0.ts?token=T\<newline>'' \<and>
   occurrences ''token='' (rewrite_line ''pub'' ''T'' (''hls/segment0.ts\<newline>'')) = 1 \<and>
   \<not> suffix ''.ts'' (strip (''  #EXTM3U \<newline>'')) \<and>
   rewrite_line ''pub'' ''T'' (''  #EXTM3U \<newline>'') = ''#EXTM3U\<newline>'' \<and>
   \<not> isspace (hd ''#EXTINF:10,'') \<and> \<not> isspace (last ''#EXTINF:10,'') \<and>
   strip (''#EXTINF:10,\<newline>'') = ''#EXTINF:10,'' \<and>
   files sample_world (abspath (cwd sample_world) ''media/hls/int/playlist.m3u8'')
     = Some (File ''segment3.ts'') \<and>
   newline \<notin> set ''pub'' \<and> newline \<notin> set ''T'' \<and>
   (\<exists>out. rewrite_playlist_with_auth_urls sample_world ''media/hls/int/playlist.m3u8''
             ''pub'' ''T'' = Inr out \<and>
          keepends out = rewrite_lines ''pub'' ''T'' (readlines ''segment3.ts''))"
proof -
  have i: "(1::nat) < length [''#EXTM3U\<newline>'', ''segment0.ts\<newline>'']" by simp
  have c: "suffix ''.ts'' (strip (''hls/segment0.ts\<newline>''))" by code_simp
  have f: "last (split_on CHR ''/'' (strip (''hls/segment0.ts\<newline>''))) = ''segment0.ts''"
    by code_simp
  have o: "occurrences ''token='' ''pub'' = 0" "occurrences ''token='' ''segment0.ts'' = 0"
    "occurrences ''token='' ''T'' = 0" by code_simp+
  have n: "\<not> suffix ''.ts'' (strip (''  #EXTM3U \<newline>''))" by code_simp
  have s: "strip (''  #EXTM3U \<newline>'') = ''#EXTM3U''" by code_simp
  have b: "\<not> isspace (hd ''#EXTINF:10,'')" "\<not> isspace (last ''#EXTINF:10,'')" by code_simp+
  have a: "abspath ''/srv'' ''media/hls/int/playlist.m3u8'' = ''/srv/media/hls/int/playlist.m3u8''"
    by code_simp
  have p: "files sample_world (abspath (cwd sample_world) ''media/hls/int/playlist.m3u8'')
     = Some (File ''segment3.ts'')"
    by (simp add: sample_world_def a)
  have m: "newline \<notin> set ''pub''" "newline \<notin> set ''T''" by (simp_all add: newline_def)
  note th = manifest_rewrite[where mid = "''pub''" and tok = "''T''"
      and lines = "[''#EXTM3U\<newline>'', ''segment0.ts\<newline>'']"
      and b = "''#EXTINF:10,''" and w = sample_world
      and path = "''media/hls/int/playlist.m3u8''" and content = "''segment3.ts''"]
  note chunk = th[where l = "''hls/segment0.ts\<newline>''"]
  note other = th[where l = "''  #EXTM3U \<newline>''"]
  have r1: "rewrite_lines ''pub'' ''T'' [''#EXTM3U\<newline>'', ''segment0.ts\<newline>''] ! 1
     = rewrite_line ''pub'' ''T''
         ([''#EXTM3U\<newline>'', ''segment0.ts\<newline>''] ! 1)"
    using chunk i by blast
  have r2: "rewrite_line ''pub'' ''T'' (''hls/segment0.ts\<newline>'')
     = ''/stream/pub/segment0.ts?token=T\<newline>''"
    using chunk c by (simp add: f newline_def)
  have r3: "occurrences ''token='' (rewrite_line ''pub'' ''T'' (''hls/segment0.ts\<newline>'')) = 1"
    using chunk c by (simp add: f o)
  have r4: "rewrite_line ''pub'' ''T'' (''  #EXTM3U \<newline>'') = ''#EXTM3U\<newline>''"
    using other n by (simp add: s newline_def)
  have r5: "strip (''#EXTINF:10,\<newline>'') = ''#EXTINF:10,''"
    using chunk b by (simp add: newline_def)
  have r6: "\<exists>out. rewrite_playlist_with_auth_urls sample_world ''media/hls/int/playlist.m3u8''
             ''pub'' ''T'' = Inr out \<and>
          keepends out = rewrite_lines ''pub'' ''T'' (readlines ''segment3.ts'')"
    using chunk p m by blast
  from i r1 c r2 r3 n r4 b r5 p m r6 show ?thesis by blast
qed

end
